theory Spec2Isabelle
  imports Main "HOL-Library.Log_Nat"
begin

section \<open>dclab.rtdc\_dataset.config: the configuration store\<close>

text \<open>
  A shallow embedding of \<^verbatim>\<open>src/dclab/rtdc_dataset/config.py\<close>.

  Conventions of the model:
  \<^item> a Python \<^verbatim>\<open>str\<close> is a \<open>string\<close>; each \<open>char\<close> is one code point in the range
    U+0000..U+00FF, so \<open>length\<close> counts what Python's \<^verbatim>\<open>len\<close> counts;
  \<^item> a function returns the warnings it emitted, in order, together with either the
    exception it raised or its value (\<open>'a res\<close>); warnings emitted before a raise are kept;
  \<^item> objects mutated in place are passed in and returned updated;
  \<^item> the module \<^verbatim>\<open>dclab.definitions\<close> (imported as \<^verbatim>\<open>dfn\<close>) and
    \<^verbatim>\<open>sys.version_info\<close> are not part of this file: they are the fields of the record
    \<open>env\<close>, a parameter of every function that consults them.
\<close>

subsection \<open>Strings\<close>

definition lower_char :: "char \<Rightarrow> char" where
  \<comment> \<open>\<^verbatim>\<open>str.lower\<close> on one code point below U+0100: A-Z, and the capital letters
      U+00C0..U+00DE except the multiplication sign U+00D7, move up by 32.\<close>
  "lower_char c =
     (let n = (of_char c :: nat)
      in if (65 \<le> n \<and> n \<le> 90) \<or> (192 \<le> n \<and> n \<le> 222 \<and> n \<noteq> 215)
         then char_of (n + 32) else c)"

definition lower :: "string \<Rightarrow> string" where
  "lower s = map lower_char s"

definition upper_char :: "char \<Rightarrow> string option" where
  \<comment> \<open>\<^verbatim>\<open>str.upper\<close> on one code point below U+0100. The sharp s U+00DF becomes the two
      letters SS. The upper-case forms of U+00B5 and U+00FF are U+039C and U+0178, which
      no \<open>char\<close> holds: there the result is \<open>None\<close>.\<close>
  "upper_char c =
     (let n = (of_char c :: nat)
      in if (97 \<le> n \<and> n \<le> 122) \<or> (224 \<le> n \<and> n \<le> 254 \<and> n \<noteq> 247)
         then Some [char_of (n - 32)]
         else if n = 223 then Some ''SS''
         else if n = 181 \<or> n = 255 then None
         else Some [c])"

fun upper :: "string \<Rightarrow> string option" where
  "upper [] = Some []"
| "upper (c # cs) =
     (case upper_char c of
        None \<Rightarrow> None
      | Some u \<Rightarrow> (case upper cs of None \<Rightarrow> None | Some us \<Rightarrow> Some (u @ us)))"

definition is_ascii :: "string \<Rightarrow> bool" where
  "is_ascii s = (\<forall>c \<in> set s. (of_char c :: nat) < 128)"

definition isspace :: "char \<Rightarrow> bool" where
  \<comment> \<open>the code points below U+0100 that \<^verbatim>\<open>str.isspace\<close> accepts\<close>
  "isspace c =
     (let n = (of_char c :: nat)
      in (9 \<le> n \<and> n \<le> 13) \<or> (28 \<le> n \<and> n \<le> 32) \<or> n = 133 \<or> n = 160)"

definition lstrip_by :: "(char \<Rightarrow> bool) \<Rightarrow> string \<Rightarrow> string" where
  "lstrip_by p s = dropWhile p s"

definition rstrip_by :: "(char \<Rightarrow> bool) \<Rightarrow> string \<Rightarrow> string" where
  "rstrip_by p s = rev (dropWhile p (rev s))"

definition strip_by :: "(char \<Rightarrow> bool) \<Rightarrow> string \<Rightarrow> string" where
  "strip_by p s = rstrip_by p (lstrip_by p s)"

definition strip :: "string \<Rightarrow> string" where
  \<comment> \<open>\<^verbatim>\<open>s.strip()\<close>\<close>
  "strip s = strip_by isspace s"

definition strip_chars :: "string \<Rightarrow> string \<Rightarrow> string" where
  \<comment> \<open>\<^verbatim>\<open>s.strip(chars)\<close>, the string first\<close>
  "strip_chars s chars = strip_by (\<lambda>c. c \<in> set chars) s"

definition startswith :: "string \<Rightarrow> string \<Rightarrow> bool" where
  "startswith s p = (take (length p) s = p)"

definition endswith :: "string \<Rightarrow> string \<Rightarrow> bool" where
  "endswith s p = (length p \<le> length s \<and> drop (length s - length p) s = p)"

subsection \<open>Values, keys, warnings and exceptions\<close>

datatype pyfloat =
    Fin bool rat  \<comment> \<open>sign bit (\<open>True\<close>: negative) and magnitude of a finite double\<close>
  | Inf bool
  | NaN

datatype pyval =
    VNone
  | VBool bool
  | VInt int
  | VFloat pyfloat
  | VStr string
  | VList "pyval list"

text \<open>
  Dictionary keys. \<^verbatim>\<open>ConfigurationDict._k\<close> tells text keys from all others;
  \<open>KInt\<close> stands for the keys that are not text.
\<close>

datatype key = KStr string | KInt int

datatype pytype = TBool | TInt | TFloat | TStr | TList | TNumber

fun isinstance1 :: "pyval \<Rightarrow> pytype \<Rightarrow> bool" where
  "isinstance1 (VBool _) t = (t = TBool \<or> t = TInt \<or> t = TNumber)"
| "isinstance1 (VInt _) t = (t = TInt \<or> t = TNumber)"
| "isinstance1 (VFloat _) t = (t = TFloat \<or> t = TNumber)"
| "isinstance1 (VStr _) t = (t = TStr)"
| "isinstance1 (VList _) t = (t = TList)"
| "isinstance1 VNone t = False"

definition isinstance :: "pyval \<Rightarrow> pytype list \<Rightarrow> bool" where
  \<comment> \<open>\<^verbatim>\<open>isinstance(value, typ)\<close>, \<open>typ\<close> a type or a tuple of types\<close>
  "isinstance v typ = (\<exists>t \<in> set typ. isinstance1 v t)"

datatype category =
    WrongConfigurationTypeWarning
  | EmptyConfigurationKeyWarning
  | UnknownConfigurationKeyWarning
  | BadUserConfigurationKeyWarning
  | BadUserConfigurationValueWarning
  | UserWarning

text \<open>One constructor for each \<^verbatim>\<open>warnings.warn\<close> call, with the arguments of its message.\<close>

datatype warning =
    EmptyValue "key option" key               \<comment> \<open>Empty value for [section]: 'key'!\<close>
  | BadValue "key option" key                 \<comment> \<open>Bad value 'None' for [section]: 'key'!\<close>
  | WrongType "key option" key "pytype list" pyval
  | DeprecatedSection key                     \<comment> \<open>The 'section' configuration key is deprecated!\<close>
  | UnknownRangeFeature string                \<comment> \<open>A range has been specified for an unknown feature\<close>
  | DeprecatedLimitEventsAuto
  | UnknownFilteringKey key                   \<comment> \<open>Unknown key 'key' in the 'filtering' section!\<close>
  | UserKeyNotString key
  | UserKeyEmpty
  | UnknownSection key
  | UnknownKey key key                        \<comment> \<open>Unknown key 'key' in the 'section' section!\<close>

fun category_of :: "warning \<Rightarrow> category" where
  "category_of (EmptyValue _ _) = EmptyConfigurationKeyWarning"
| "category_of (BadValue _ _) = BadUserConfigurationValueWarning"
| "category_of (WrongType _ _ _ _) = WrongConfigurationTypeWarning"
| "category_of (DeprecatedSection _) = UnknownConfigurationKeyWarning"
| "category_of (UnknownRangeFeature _) = UnknownConfigurationKeyWarning"
| "category_of DeprecatedLimitEventsAuto = UserWarning"
| "category_of (UnknownFilteringKey _) = UnknownConfigurationKeyWarning"
| "category_of (UserKeyNotString _) = BadUserConfigurationKeyWarning"
| "category_of UserKeyEmpty = BadUserConfigurationKeyWarning"
| "category_of (UnknownSection _) = UnknownConfigurationKeyWarning"
| "category_of (UnknownKey _ _) = UnknownConfigurationKeyWarning"

datatype error =
    KeyError key                \<comment> \<open>a failed dictionary lookup\<close>
  | NoDefaultValue key          \<comment> \<open>KeyError: No default value set for [filtering]:key\<close>
  | AttributeError              \<comment> \<open>a string method called on a key that is not text\<close>
  | UnboundLocalError           \<comment> \<open>a local variable read before its first assignment\<close>
  | TypeError
  | ValueError

type_synonym 'a res = "warning list \<times> (error + 'a)"

definition ret :: "'a \<Rightarrow> 'a res" where
  "ret x = ([], Inr x)"

definition raise :: "error \<Rightarrow> 'a res" where
  "raise e = ([], Inl e)"

definition warn :: "warning \<Rightarrow> unit res" where
  "warn w = ([w], Inr ())"

definition rbind :: "'a res \<Rightarrow> ('a \<Rightarrow> 'b res) \<Rightarrow> 'b res" where
  \<comment> \<open>sequencing: an exception ends the run, the warnings so far stay\<close>
  "rbind m f =
     (case m of
        (ws, Inl e) \<Rightarrow> (ws, Inl e)
      | (ws, Inr x) \<Rightarrow> (case f x of (ws', r) \<Rightarrow> (ws @ ws', r)))"

definition lift :: "error + 'a \<Rightarrow> 'a res" where
  "lift r = ([], r)"

definition warnings_of :: "'a res \<Rightarrow> warning list" where
  "warnings_of m = fst m"

definition outcome :: "'a res \<Rightarrow> error + 'a" where
  "outcome m = snd m"

subsection \<open>The schema registry \<^verbatim>\<open>dclab.definitions\<close>\<close>

record env =
  config_key_exists :: "key \<Rightarrow> key \<Rightarrow> bool"
  scalar_feature_exists :: "string \<Rightarrow> bool"
  get_config_value_type :: "key \<Rightarrow> key \<Rightarrow> pytype list option"
  get_config_value_func :: "key \<Rightarrow> key \<Rightarrow> pyval \<Rightarrow> error + pyval"
  config_keys :: "key list"            \<comment> \<open>the section names of \<^verbatim>\<open>dfn.config_keys\<close>\<close>
  CFG_ANALYSIS_filtering :: "key list" \<comment> \<open>\<^verbatim>\<open>item[0]\<close> of each item of \<^verbatim>\<open>dfn.CFG_ANALYSIS["filtering"]\<close>\<close>
  version_info0 :: nat                 \<comment> \<open>\<^verbatim>\<open>sys.version_info[0]\<close>\<close>

subsection \<open>\<^verbatim>\<open>verify_section_key\<close>\<close>

definition key_endswith :: "key \<Rightarrow> string \<Rightarrow> bool res" where
  \<comment> \<open>\<^verbatim>\<open>key.endswith(suffix)\<close>: only text has the method\<close>
  "key_endswith key suffix =
     (case key of KStr s \<Rightarrow> ret (endswith s suffix) | KInt _ \<Rightarrow> raise AttributeError)"

definition warn_count :: "warning \<Rightarrow> nat res" where
  \<comment> \<open>\<^verbatim>\<open>warnings.warn(...); wcount += 1\<close>, from \<open>wcount = 0\<close>\<close>
  "warn_count w = rbind (warn w) (\<lambda>_. ret 1)"

definition verify_filtering_key :: "env \<Rightarrow> key \<Rightarrow> nat res" where
  \<comment> \<open>the branch \<^verbatim>\<open>elif section == "filtering"\<close>; \<^verbatim>\<open>or\<close> does not evaluate its
      second operand when the first is true\<close>
  "verify_filtering_key env key =
     rbind (key_endswith key '' min'') (\<lambda>e1.
     rbind (if e1 then ret True else key_endswith key '' max'') (\<lambda>e.
       if e then
         (case key of
            KStr s \<Rightarrow>
              (let feat = take (length s - 4) s
               in if \<not> scalar_feature_exists env feat
                  then warn_count (UnknownRangeFeature feat) else ret 0)
          | KInt _ \<Rightarrow> raise AttributeError)
       else if key = KStr ''limit events auto'' then
         (if version_info0 env \<noteq> 2 then warn_count DeprecatedLimitEventsAuto else ret 0)
       else warn_count (UnknownFilteringKey key)))"

definition verify_user_key :: "key \<Rightarrow> nat res" where
  \<comment> \<open>the branch \<^verbatim>\<open>elif section == "user"\<close>\<close>
  "verify_user_key key =
     (case key of
        KInt _ \<Rightarrow> warn_count (UserKeyNotString key)
      | KStr s \<Rightarrow> if length (strip s) = 0 then warn_count UserKeyEmpty else ret 0)"

definition verify_section_key :: "env \<Rightarrow> key \<Rightarrow> key \<Rightarrow> bool res" where
  "verify_section_key env sec key =
     rbind
       (if config_key_exists env sec key then ret 0
        else if sec \<in> set [KStr ''plotting'', KStr ''analysis'']
          then warn_count (DeprecatedSection sec)
        else if sec = KStr ''filtering'' then verify_filtering_key env key
        else if sec = KStr ''user'' then verify_user_key key
        else if sec \<notin> set (config_keys env) then warn_count (UnknownSection sec)
        else warn_count (UnknownKey key sec))
       (\<lambda>wcount. ret (wcount = 0))"

subsection \<open>\<^verbatim>\<open>ConfigurationDict\<close>\<close>

text \<open>
  The underlying \<^verbatim>\<open>dict\<close> is an association list in insertion order: storing under a
  key that is present replaces the value in place, storing under a new key appends.
\<close>

fun dict_get :: "(key \<times> 'v) list \<Rightarrow> key \<Rightarrow> 'v option" where
  "dict_get [] k = None"
| "dict_get ((k', v) # d) k = (if k' = k then Some v else dict_get d k)"

fun dict_set :: "key \<Rightarrow> 'v \<Rightarrow> (key \<times> 'v) list \<Rightarrow> (key \<times> 'v) list" where
  "dict_set k v [] = [(k, v)]"
| "dict_set k v ((k', v') # d) = (if k' = k then (k, v) # d else (k', v') # dict_set k v d)"

fun dict_del :: "key \<Rightarrow> (key \<times> 'v) list \<Rightarrow> (key \<times> 'v) list" where
  "dict_del k [] = []"
| "dict_del k ((k', v') # d) = (if k' = k then dict_del k d else (k', v') # dict_del k d)"

record cdict =
  cd_section :: "key option"
  data :: "(key \<times> pyval) list"

definition cd_k :: "key \<Rightarrow> key" where
  \<comment> \<open>\<^verbatim>\<open>ConfigurationDict._k\<close>\<close>
  "cd_k key = (case key of KStr s \<Rightarrow> KStr (lower s) | KInt i \<Rightarrow> KInt i)"

definition truthy :: "key option \<Rightarrow> bool" where
  \<comment> \<open>\<^verbatim>\<open>if self.section:\<close>: \<^verbatim>\<open>None\<close>, the empty string and zero are false\<close>
  "truthy s = (case s of None \<Rightarrow> False | Some (KStr t) \<Rightarrow> t \<noteq> [] | Some (KInt i) \<Rightarrow> i \<noteq> 0)"

definition cd_getitem :: "cdict \<Rightarrow> key \<Rightarrow> pyval res" where
  "cd_getitem d key =
     (case dict_get (data d) (cd_k key) of
        None \<Rightarrow> raise (KeyError (cd_k key))
      | Some v \<Rightarrow> ret v)"

definition cd_contains :: "cdict \<Rightarrow> key \<Rightarrow> bool" where
  "cd_contains d key = (dict_get (data d) (cd_k key) \<noteq> None)"

definition cd_delitem :: "cdict \<Rightarrow> key \<Rightarrow> cdict res" where
  "cd_delitem d key =
     (case dict_get (data d) (cd_k key) of
        None \<Rightarrow> raise (KeyError (cd_k key))
      | Some v \<Rightarrow> ret (d\<lparr>data := dict_del (cd_k key) (data d)\<rparr>))"

definition cd_len :: "cdict \<Rightarrow> nat" where
  "cd_len d = length (data d)"

definition cd_setitem :: "env \<Rightarrow> cdict \<Rightarrow> key \<Rightarrow> pyval \<Rightarrow> cdict res" where
  "cd_setitem env d key0 value0 =
     (let key = cd_k key0 in
      rbind
        (if truthy (cd_section d) then
           rbind (verify_section_key env (the (cd_section d)) key) (\<lambda>valid.
             if valid \<and> value0 = VStr [] then
               rbind (warn (EmptyValue (cd_section d) key)) (\<lambda>_. ret False)
             else ret valid)
         else ret True) (\<lambda>valid1.
      rbind
        (if value0 = VNone then
           rbind (warn (BadValue (cd_section d) key)) (\<lambda>_. ret False)
         else ret valid1) (\<lambda>valid.
      if valid then
        rbind
          (if truthy (cd_section d) then
             rbind
               (case get_config_value_type env (the (cd_section d)) key of
                  None \<Rightarrow> ret ()
                | Some typ \<Rightarrow>
                    if \<not> isinstance value0 typ
                    then warn (WrongType (cd_section d) key typ value0) else ret ()) (\<lambda>_.
             lift (get_config_value_func env (the (cd_section d)) key value0))
           else ret value0) (\<lambda>value.
        ret (d\<lparr>data := dict_set key value (data d)\<rparr>))
      else ret d)))"

subsection \<open>More string operations\<close>

fun split_on :: "char \<Rightarrow> string \<Rightarrow> string list" where
  \<comment> \<open>\<^verbatim>\<open>s.split(c)\<close> for a separator of one character\<close>
  "split_on c [] = [[]]"
| "split_on c (x # xs) =
     (if x = c then [] # split_on c xs
      else (case split_on c xs of [] \<Rightarrow> [[x]] | w # ws \<Rightarrow> (x # w) # ws))"

definition split1 :: "char \<Rightarrow> string \<Rightarrow> string list" where
  \<comment> \<open>\<^verbatim>\<open>s.split(c, 1)\<close>: at most one split, at the first separator\<close>
  "split1 c s =
     (if c \<in> set s then [takeWhile (\<lambda>x. x \<noteq> c) s, tl (dropWhile (\<lambda>x. x \<noteq> c) s)] else [s])"

definition count_char :: "char \<Rightarrow> string \<Rightarrow> nat" where
  \<comment> \<open>\<^verbatim>\<open>s.count(c)\<close>\<close>
  "count_char c s = length (filter (\<lambda>x. x = c) s)"

definition replace_char :: "char \<Rightarrow> char \<Rightarrow> string \<Rightarrow> string" where
  \<comment> \<open>\<^verbatim>\<open>s.replace(a, b)\<close> for single characters\<close>
  "replace_char a b s = map (\<lambda>x. if x = a then b else x) s"

fun join :: "string \<Rightarrow> string list \<Rightarrow> string" where
  \<comment> \<open>\<^verbatim>\<open>sep.join(parts)\<close>\<close>
  "join sep [] = []"
| "join sep [x] = x"
| "join sep (x # y # ys) = x @ sep @ join sep (y # ys)"

definition isdigit :: "char \<Rightarrow> bool" where
  "isdigit c = (48 \<le> (of_char c :: nat) \<and> (of_char c :: nat) \<le> 57)"

fun int_of_digits :: "int \<Rightarrow> string \<Rightarrow> int" where
  "int_of_digits acc [] = acc"
| "int_of_digits acc (c # cs) = int_of_digits (10 * acc + (of_char c - 48)) cs"

function digits_of :: "int \<Rightarrow> string" where
  \<comment> \<open>the decimal digits of a number that is not negative\<close>
  "digits_of n =
     (if n < 10 then [char_of (48 + n)]
      else digits_of (n div 10) @ [char_of (48 + n mod 10)])"
  by pat_completeness auto
termination
  by (relation "measure nat") auto

definition str_int :: "int \<Rightarrow> string" where
  \<comment> \<open>\<^verbatim>\<open>str(i)\<close> for an \<^verbatim>\<open>int\<close>\<close>
  "str_int i = (if i < 0 then ''-'' @ digits_of (- i) else digits_of i)"

subsection \<open>Floats: \<^verbatim>\<open>float(s)\<close> and \<^verbatim>\<open>"{:.12f}".format(x)\<close>\<close>

text \<open>
  A finite double is kept as its sign bit and its exact magnitude, a rational number.
  \<open>to_double\<close> rounds a quotient of integers to the nearest double (53 significant bits,
  exponents from -1074, ties to even, infinity from \<open>2\<^sup>1\<^sup>0\<^sup>2\<^sup>4\<close> on), which is what
  \<^verbatim>\<open>float\<close> does with a decimal numeral; \<open>format_12f\<close> rounds the exact value to twelve
  decimals, ties to even, as the format specification \<^verbatim>\<open>.12f\<close> does.
\<close>

definition pow2 :: "int \<Rightarrow> rat" where
  "pow2 t = (if 0 \<le> t then 2 ^ nat t else 1 / 2 ^ nat (- t))"

definition round_half_even :: "int \<Rightarrow> int \<Rightarrow> int" where
  \<comment> \<open>the integer nearest to \<open>num / den\<close>, ties to the even one\<close>
  "round_half_even num den =
     (let q = num div den; r = num mod den
      in if den < 2 * r \<or> (2 * r = den \<and> odd q) then q + 1 else q)"

definition floor_log2 :: "int \<Rightarrow> int \<Rightarrow> int" where
  \<comment> \<open>\<open>\<lfloor>log\<^sub>2 (n / m)\<rfloor>\<close> for positive \<open>n\<close> and \<open>m\<close>\<close>
  "floor_log2 n m =
     (let e0 = bitlen n - bitlen m
      in if (if 0 \<le> e0 then m * 2 ^ nat e0 \<le> n else m \<le> n * 2 ^ nat (- e0))
         then e0 else e0 - 1)"

definition to_double :: "bool \<Rightarrow> int \<Rightarrow> int \<Rightarrow> pyfloat" where
  \<comment> \<open>the double nearest to \<open>n / m\<close> (\<open>n \<ge> 0\<close>, \<open>m > 0\<close>), with the sign bit given\<close>
  "to_double neg n m =
     (if n = 0 then Fin neg 0
      else
        let t = max (floor_log2 n m - 52) (- 1074);
            mant = (if 0 \<le> t then round_half_even n (m * 2 ^ nat t)
                    else round_half_even (n * 2 ^ nat (- t)) m)
        in if 971 < t \<or> (t = 971 \<and> mant = 2 ^ 53) then Inf neg
           else Fin neg (of_int mant * pow2 t))"

fun underscores_ok :: "char \<Rightarrow> string \<Rightarrow> bool" where
  \<comment> \<open>an underscore in a numeral stands after a digit and before a digit; the first
      argument is the previous character\<close>
  "underscores_ok prev [] = (prev \<noteq> CHR ''_'')"
| "underscores_ok prev (c # cs) =
     ((if c = CHR ''_'' then isdigit prev else (prev = CHR ''_'' \<longrightarrow> isdigit c))
      \<and> underscores_ok c cs)"

definition parse_exponent :: "string \<Rightarrow> int option" where
  \<comment> \<open>what follows the mantissa: nothing, or e or E, an optional sign and digits\<close>
  "parse_exponent s =
     (case s of
        [] \<Rightarrow> Some 0
      | c # r \<Rightarrow>
          if c = CHR ''e'' \<or> c = CHR ''E'' then
            (let (neg, ds) =
               (case r of
                  [] \<Rightarrow> (False, [])
                | d # r' \<Rightarrow> if d = CHR ''-'' then (True, r')
                            else if d = CHR ''+'' then (False, r') else (False, r))
             in if ds \<noteq> [] \<and> list_all isdigit ds
                then Some (if neg then - int_of_digits 0 ds else int_of_digits 0 ds)
                else None)
          else None)"

definition parse_decimal :: "bool \<Rightarrow> string \<Rightarrow> error + pyfloat" where
  \<comment> \<open>digits, an optional point and digits (at least one digit in all), an optional exponent\<close>
  "parse_decimal neg s =
     (let ip = takeWhile isdigit s; r1 = dropWhile isdigit s;
          (fp, r2) =
            (case r1 of
               [] \<Rightarrow> ([], [])
             | c # r \<Rightarrow> if c = CHR ''.'' then (takeWhile isdigit r, dropWhile isdigit r)
                        else ([], r1))
      in if ip = [] \<and> fp = [] then Inl ValueError
         else case parse_exponent r2 of
                None \<Rightarrow> Inl ValueError
              | Some ex \<Rightarrow>
                  (let d = int_of_digits 0 (ip @ fp); sc = ex - int (length fp)
                   in Inr (if 0 \<le> sc then to_double neg (d * 10 ^ nat sc) 1
                           else to_double neg d (10 ^ nat (- sc)))))"

definition float_space :: "char \<Rightarrow> bool" where
  \<comment> \<open>what \<^verbatim>\<open>float\<close> drops around a numeral: tab, line feed, vertical tab, form feed,
      carriage return and space, and the two spaces above U+007F (U+0085 and U+00A0), which
      it first turns into a space. The separators U+001C..U+001F, which \<^verbatim>\<open>str.strip\<close>
      drops, stay and make the numeral invalid.\<close>
  "float_space c =
     (let n = (of_char c :: nat)
      in (9 \<le> n \<and> n \<le> 13) \<or> n = 32 \<or> n = 133 \<or> n = 160)"

definition py_float :: "string \<Rightarrow> error + pyfloat" where
  \<comment> \<open>\<^verbatim>\<open>float(s)\<close> for a string: surrounding whitespace is dropped; the only exception
      is \<^verbatim>\<open>ValueError\<close>\<close>
  "py_float s0 =
     (let s = strip_by float_space s0 in
      if \<not> underscores_ok (CHR 0x00) s then Inl ValueError
      else
        let s1 = filter (\<lambda>c. c \<noteq> CHR ''_'') s;
            (neg, r) =
              (case s1 of
                 [] \<Rightarrow> (False, [])
               | c # cs \<Rightarrow> if c = CHR ''-'' then (True, cs)
                           else if c = CHR ''+'' then (False, cs) else (False, s1))
        in if lower r = ''inf'' \<or> lower r = ''infinity'' then Inr (Inf neg)
           else if lower r = ''nan'' then Inr NaN
           else parse_decimal neg r)"

definition format_12f :: "pyfloat \<Rightarrow> string" where
  \<comment> \<open>\<^verbatim>\<open>"{:.12f}".format(x)\<close>\<close>
  "format_12f f =
     (case f of
        NaN \<Rightarrow> ''nan''
      | Inf neg \<Rightarrow> (if neg then ''-inf'' else ''inf'')
      | Fin neg q \<Rightarrow>
          (let (a, b) = quotient_of q;
               n = round_half_even (a * 10 ^ 12) b;
               fr = digits_of (n mod 10 ^ 12)
           in (if neg then ''-'' else []) @ digits_of (n div 10 ^ 12) @ ''.''
              @ replicate (12 - length fr) (CHR ''0'') @ fr))"

subsection \<open>\<^verbatim>\<open>keyval_str2typ\<close> and \<^verbatim>\<open>keyval_typ2str\<close>\<close>

fun float_list :: "string list \<Rightarrow> error + pyval list" where
  \<comment> \<open>\<^verbatim>\<open>[float(v) for v in values]\<close>: the first failure ends the comprehension\<close>
  "float_list [] = Inr []"
| "float_list (v # vs) =
     (case py_float v of
        Inl e \<Rightarrow> Inl e
      | Inr f \<Rightarrow> (case float_list vs of Inl e \<Rightarrow> Inl e | Inr fs \<Rightarrow> Inr (VFloat f # fs)))"

definition keyval_str2typ :: "env \<Rightarrow> string \<Rightarrow> pyval \<Rightarrow> (string \<times> pyval) option res" where
  \<comment> \<open>the result is \<open>None\<close> where the function falls off its end and returns \<^verbatim>\<open>None\<close>\<close>
  "keyval_str2typ env var0 val0 =
     (case val0 of
        VStr s \<Rightarrow>
          (let var = lower (strip var0); val = strip s in
           if length var \<noteq> 0 \<and> length val \<noteq> 0 then
             if startswith val ''['' \<and> endswith val '']'' then
               (if length (strip_chars val ''[],'') = 0 then ret (Some (var, VList []))
                else rbind (lift (float_list (split_on (CHR '','') (strip_chars val ''[],''))))
                       (\<lambda>values. ret (Some (var, VList values))))
             else if lower val \<in> set [''true'', ''y''] then ret (Some (var, VBool True))
             else if lower val \<in> set [''false'', ''n''] then ret (Some (var, VBool False))
             else if hd val \<in> set [CHR 0x27, CHR 0x22] \<and> last val \<in> set [CHR 0x27, CHR 0x22]
               then ret (Some (var, VStr (strip (strip_chars (strip_chars val [CHR 0x27])
                                                              [CHR 0x22]))))
             else if scalar_feature_exists env val then ret (Some (var, VStr val))
             else (case py_float (replace_char (CHR '','') (CHR ''.'') val) of
                     Inr f \<Rightarrow> ret (Some (var, VFloat f))
                   | Inl e \<Rightarrow> if e = ValueError then ret (Some (var, VStr val)) else raise e)
           else ret None)
      | _ \<Rightarrow> ret (Some (strip var0, val0)))"

fun keyval_typ2str :: "string \<Rightarrow> pyval \<Rightarrow> string \<times> string" where
  "keyval_typ2str var (VList xs) =
     (strip var, ''['' @ join '', '' (map (\<lambda>it. snd (keyval_typ2str var it)) xs) @ '']'')"
| "keyval_typ2str var (VFloat f) = (strip var, format_12f f)"
| "keyval_typ2str var VNone = (strip var, ''None'')"
| "keyval_typ2str var (VBool b) = (strip var, if b then ''True'' else ''False'')"
| "keyval_typ2str var (VInt i) = (strip var, str_int i)"
| "keyval_typ2str var (VStr s) = (strip var, s)"

subsection \<open>\<^verbatim>\<open>load_from_file\<close>\<close>

text \<open>
  The file is given by the list of its lines, as \<^verbatim>\<open>readlines\<close> returns them. The loop
  variables are the dictionary \<^verbatim>\<open>cfg\<close> built so far and the local variable \<^verbatim>\<open>sec\<close>,
  which has no value (\<open>None\<close>) until the first section header is read.
\<close>

definition str_empty :: "pyval \<Rightarrow> bool" where
  \<comment> \<open>\<^verbatim>\<open>len(str(val)) == 0\<close>: the text of \<^verbatim>\<open>None\<close>, of a truth value, of a number and
      of a list is never empty\<close>
  "str_empty v = (v = VStr [])"

definition load_line ::
  "env \<Rightarrow> string option \<times> (key \<times> cdict) list \<Rightarrow> string
     \<Rightarrow> (string option \<times> (key \<times> cdict) list) res" where
  "load_line env st line0 =
     (let sec = fst st; cfg = snd st;
          line = strip (hd (split_on (CHR ''#'') line0))
      in if length line \<noteq> 0 then
           if startswith line ''['' \<and> endswith line '']'' then
             (let sec' = lower (take (length line - 2) (drop 1 line))
              in ret (Some sec',
                      if dict_get cfg (cd_k (KStr sec')) = None
                      then dict_set (cd_k (KStr sec')) \<lparr>cd_section = None, data = []\<rparr> cfg
                      else cfg))
           else if count_char (CHR ''='') line = 0 then ret st
           else
             (case split1 (CHR ''='') line of
                [var0, val0] \<Rightarrow>
                  (let var = lower (strip var0);
                       val = strip (strip_chars (strip_chars val0 [CHR 0x27, CHR '' ''])
                                                [CHR 0x22, CHR '' ''])
                   in if length val = 0 then ret st
                      else
                        (case sec of
                           None \<Rightarrow> raise UnboundLocalError
                         | Some s \<Rightarrow>
                             rbind
                               (if config_key_exists env (KStr s) (KStr var) then
                                  rbind (lift (get_config_value_func env (KStr s) (KStr var)
                                                 (VStr val)))
                                    (\<lambda>v. ret (var, v))
                                else
                                  rbind (keyval_str2typ env var (VStr val))
                                    (\<lambda>r. case r of None \<Rightarrow> raise TypeError
                                                   | Some p \<Rightarrow> ret p))
                               (\<lambda>p. if length (fst p) \<noteq> 0 \<and> \<not> str_empty (snd p) then
                                       (case dict_get cfg (cd_k (KStr s)) of
                                          None \<Rightarrow> raise (KeyError (cd_k (KStr s)))
                                        | Some d \<Rightarrow>
                                            rbind (cd_setitem env d (KStr (fst p)) (snd p))
                                              (\<lambda>d'. ret (sec, dict_set (cd_k (KStr s)) d' cfg)))
                                     else ret st)))
              | _ \<Rightarrow> raise ValueError)
         else ret st)"

fun load_lines ::
  "env \<Rightarrow> string option \<times> (key \<times> cdict) list \<Rightarrow> string list
     \<Rightarrow> (string option \<times> (key \<times> cdict) list) res" where
  "load_lines env st [] = ret st"
| "load_lines env st (line # code) =
     rbind (load_line env st line) (\<lambda>st'. load_lines env st' code)"

definition load_from_file :: "env \<Rightarrow> string list \<Rightarrow> (key \<times> cdict) list res" where
  "load_from_file env code = rbind (load_lines env (None, []) code) (\<lambda>st. ret (snd st))"

subsection \<open>\<^verbatim>\<open>Configuration\<close>\<close>

text \<open>
  \<^verbatim>\<open>self._cfg\<close> is a ConfigurationDict without a section whose values are the section
  dictionaries: storing into it is storing under the normalised key. A dictionary given to
  \<^verbatim>\<open>update\<close> or to the constructor is the list of its items in iteration order.
\<close>

record configuration =
  disable_checks :: bool
  cfg_dict :: "(key \<times> cdict) list"

definition cf_contains :: "configuration \<Rightarrow> key \<Rightarrow> bool" where
  \<comment> \<open>\<^verbatim>\<open>Configuration.__contains__\<close>\<close>
  "cf_contains c key = (dict_get (cfg_dict c) (cd_k key) \<noteq> None)"

definition new_section :: "configuration \<Rightarrow> key \<Rightarrow> cdict" where
  \<comment> \<open>\<^verbatim>\<open>ConfigurationDict(section=None if self.disable_checks else sec)\<close>\<close>
  "new_section c sec = \<lparr>cd_section = (if disable_checks c then None else Some sec), data = []\<rparr>"

definition cf_getitem :: "env \<Rightarrow> configuration \<Rightarrow> key \<Rightarrow> configuration \<times> cdict res" where
  \<comment> \<open>\<^verbatim>\<open>Configuration.__getitem__\<close>: the configuration after the call, and the result\<close>
  "cf_getitem env c sec =
     (let c' = (if \<not> cf_contains c sec \<and> (sec \<in> set (config_keys env) \<or> sec = KStr ''user'')
                then c\<lparr>cfg_dict := dict_set (cd_k sec) (new_section c sec) (cfg_dict c)\<rparr>
                else c)
      in (c', case dict_get (cfg_dict c') (cd_k sec) of
                None \<Rightarrow> raise (KeyError (cd_k sec))
              | Some item \<Rightarrow> ret item))"

fun cd_update :: "env \<Rightarrow> cdict \<Rightarrow> (key \<times> pyval) list \<Rightarrow> cdict res" where
  \<comment> \<open>\<^verbatim>\<open>ConfigurationDict.update(E)\<close>\<close>
  "cd_update env d [] = ret d"
| "cd_update env d ((key, v) # E) =
     rbind (cd_setitem env d key v) (\<lambda>d'. cd_update env d' E)"

fun cf_update :: "env \<Rightarrow> configuration \<Rightarrow> (key \<times> (key \<times> pyval) list) list
    \<Rightarrow> configuration res" where
  \<comment> \<open>\<^verbatim>\<open>Configuration.update(newcfg)\<close>\<close>
  "cf_update env c [] = ret c"
| "cf_update env c ((sec, E) # newcfg) =
     (let c1 = (if dict_get (cfg_dict c) (cd_k sec) = None
                then c\<lparr>cfg_dict := dict_set (cd_k sec) (new_section c sec) (cfg_dict c)\<rparr>
                else c)
      in case dict_get (cfg_dict c1) (cd_k sec) of
           None \<Rightarrow> raise (KeyError (cd_k sec))
         | Some d \<Rightarrow>
             rbind (cd_update env d E)
               (\<lambda>d'. cf_update env (c1\<lparr>cfg_dict := dict_set (cd_k sec) d' (cfg_dict c1)\<rparr>)
                        newcfg))"

definition set_default :: "env \<Rightarrow> configuration \<Rightarrow> key \<Rightarrow> pyval \<Rightarrow> configuration res" where
  \<comment> \<open>\<^verbatim>\<open>self["filtering"][key] = value\<close>\<close>
  "set_default env c key v =
     (let g = cf_getitem env c (KStr ''filtering'')
      in rbind (snd g) (\<lambda>d.
         rbind (cd_setitem env d key v) (\<lambda>d'.
         ret ((fst g)\<lparr>cfg_dict := dict_set (cd_k (KStr ''filtering'')) d' (cfg_dict (fst g))\<rparr>))))"

fun check_defaults :: "env \<Rightarrow> configuration \<Rightarrow> key list \<Rightarrow> configuration res" where
  \<comment> \<open>the loop over \<^verbatim>\<open>dfn.CFG_ANALYSIS["filtering"]\<close>\<close>
  "check_defaults env c [] = ret c"
| "check_defaults env c (item0 # items) =
     (let g = cf_getitem env c (KStr ''filtering'')
      in rbind (snd g) (\<lambda>d.
         if \<not> cd_contains d item0 then raise (NoDefaultValue item0)
         else check_defaults env (fst g) items))"

definition init_default_filter_values :: "env \<Rightarrow> configuration \<Rightarrow> configuration res" where
  "init_default_filter_values env c =
     rbind (set_default env c (KStr ''remove invalid events'') (VBool False)) (\<lambda>c1.
     rbind (set_default env c1 (KStr ''enable filters'') (VBool True)) (\<lambda>c2.
     rbind (set_default env c2 (KStr ''limit events'') (VInt 0)) (\<lambda>c3.
     rbind (set_default env c3 (KStr ''polygon filters'') (VList [])) (\<lambda>c4.
     rbind (set_default env c4 (KStr ''hierarchy parent'') (VStr ''none'')) (\<lambda>c5.
     check_defaults env c5 (CFG_ANALYSIS_filtering env))))))"

definition items_of :: "(key \<times> cdict) list \<Rightarrow> (key \<times> (key \<times> pyval) list) list" where
  \<comment> \<open>a dictionary of section dictionaries, read as \<^verbatim>\<open>update\<close> reads its argument\<close>
  "items_of cfg = map (\<lambda>p. (fst p, data (snd p))) cfg"

fun load_files :: "env \<Rightarrow> configuration \<Rightarrow> string list list \<Rightarrow> configuration res" where
  \<comment> \<open>\<^verbatim>\<open>for f in files: self.update(load_from_file(f))\<close>\<close>
  "load_files env c [] = ret c"
| "load_files env c (f # files) =
     rbind (load_from_file env f) (\<lambda>cfg.
     rbind (cf_update env c (items_of cfg)) (\<lambda>c'. load_files env c' files))"

definition cf_init ::
  "env \<Rightarrow> string list list \<Rightarrow> (key \<times> (key \<times> pyval) list) list \<Rightarrow> bool \<Rightarrow> configuration res" where
  \<comment> \<open>\<^verbatim>\<open>Configuration(files, cfg, disable_checks)\<close>\<close>
  "cf_init env files cfg dc =
     rbind (init_default_filter_values env \<lparr>disable_checks = dc, cfg_dict = []\<rparr>) (\<lambda>c1.
     rbind (cf_update env c1 cfg) (\<lambda>c2.
     load_files env c2 files))"


subsection \<open>A small registry for running the model\<close>

text \<open>
  The functions above take the registry as a parameter. To run them on concrete inputs,
  here is a registry with two sections and a handful of keys; its converters accept the
  values that already have the right shape, and the converter of the two float keys does
  what \<^verbatim>\<open>float\<close> does with a number or a text.
\<close>

fun ex_float :: "pyval \<Rightarrow> error + pyval" where
  "ex_float (VFloat f) = Inr (VFloat f)"
| "ex_float (VInt i) = Inr (VFloat (to_double (i < 0) \<bar>i\<bar> 1))"
| "ex_float (VBool b) = Inr (VFloat (Fin False (if b then 1 else 0)))"
| "ex_float (VStr s) = (case py_float s of Inl e \<Rightarrow> Inl e | Inr f \<Rightarrow> Inr (VFloat f))"
| "ex_float v = Inl TypeError"

fun ex_bool :: "pyval \<Rightarrow> error + pyval" where
  "ex_bool (VBool b) = Inr (VBool b)"
| "ex_bool (VInt i) = Inr (VBool (i \<noteq> 0))"
| "ex_bool v = Inl ValueError"

fun ex_int :: "pyval \<Rightarrow> error + pyval" where
  "ex_int (VInt i) = Inr (VInt i)"
| "ex_int (VBool b) = Inr (VInt (if b then 1 else 0))"
| "ex_int v = Inl ValueError"

fun ex_list :: "pyval \<Rightarrow> error + pyval" where
  "ex_list (VList xs) = Inr (VList xs)"
| "ex_list v = Inl TypeError"

fun ex_str :: "pyval \<Rightarrow> error + pyval" where
  "ex_str (VStr s) = Inr (VStr s)"
| "ex_str v = Inl TypeError"

definition ex_table :: "((key \<times> key) \<times> (pytype list \<times> (pyval \<Rightarrow> error + pyval))) list" where
  "ex_table =
     [((KStr ''filtering'', KStr ''hierarchy parent''), ([TStr], ex_str)),
      ((KStr ''filtering'', KStr ''remove invalid events''), ([TBool], ex_bool)),
      ((KStr ''filtering'', KStr ''enable filters''), ([TBool], ex_bool)),
      ((KStr ''filtering'', KStr ''limit events''), ([TInt], ex_int)),
      ((KStr ''filtering'', KStr ''polygon filters''), ([TList], ex_list)),
      ((KStr ''setup'', KStr ''channel width''), ([TFloat], ex_float)),
      ((KStr ''setup'', KStr ''flow rate''), ([TFloat], ex_float))]"

definition ex_env :: env where
  "ex_env =
     \<lparr> config_key_exists = (\<lambda>sec key. map_of ex_table (sec, key) \<noteq> None),
       scalar_feature_exists = (\<lambda>feat. feat \<in> set [''area_um'', ''deform'']),
       get_config_value_type =
         (\<lambda>sec key. case map_of ex_table (sec, key) of None \<Rightarrow> None | Some tf \<Rightarrow> Some (fst tf)),
       get_config_value_func =
         (\<lambda>sec key. case map_of ex_table (sec, key) of None \<Rightarrow> Inr | Some tf \<Rightarrow> snd tf),
       config_keys = [KStr ''filtering'', KStr ''setup''],
       CFG_ANALYSIS_filtering =
         [KStr ''hierarchy parent'', KStr ''remove invalid events'', KStr ''enable filters'',
          KStr ''limit events'', KStr ''polygon filters''],
       version_info0 = 3 \<rparr>"

subsection \<open>Auxiliary notions for the proofs\<close>

definition counted :: "nat res \<Rightarrow> bool" where
  \<comment> \<open>what a branch of \<^verbatim>\<open>verify_section_key\<close> leaves: no warning and \<open>wcount = 0\<close>, or one
      warning and \<open>wcount = 1\<close>\<close>
  "counted m = (m = ([], Inr 0) \<or> (\<exists>w. m = ([w], Inr 1)))"

definition mentioned :: "(key \<times> (key \<times> pyval) list) list \<Rightarrow> key \<Rightarrow> key set" where
  \<comment> \<open>the normalised keys that an argument of \<^verbatim>\<open>Configuration.update\<close> assigns in the
      section stored under \<open>s\<close>\<close>
  "mentioned newcfg s =
     {cd_k k | sec E k. (sec, E) \<in> set newcfg \<and> cd_k sec = s \<and> k \<in> fst ` set E}"

definition default_filter_values :: "(key \<times> pyval) list" where
  \<comment> \<open>the five assignments of \<^verbatim>\<open>_init_default_filter_values\<close>, in their order\<close>
  "default_filter_values =
     [(KStr ''remove invalid events'', VBool False),
      (KStr ''enable filters'', VBool True),
      (KStr ''limit events'', VInt 0),
      (KStr ''polygon filters'', VList []),
      (KStr ''hierarchy parent'', VStr ''none'')]"

definition filtering_only :: "(key \<times> pyval) list \<Rightarrow> configuration" where
  \<comment> \<open>a checking configuration whose only section is "filtering", with the given entries\<close>
  "filtering_only xs =
     \<lparr>disable_checks = False,
      cfg_dict = [(KStr ''filtering'', \<lparr>cd_section = Some (KStr ''filtering''), data = xs\<rparr>)]\<rparr>"


section \<open>Properties\<close>

subsection \<open>Sequencing and validation\<close>


lemma rbind_ret [simp]: "rbind (ret x) f = f x"
  by (simp add: rbind_def ret_def)

lemma rbind_raise [simp]: "rbind (raise e) f = raise e"
  by (simp add: rbind_def raise_def)

lemma rbind_pair_Inr [simp]: "rbind (ws, Inr x) f = (ws @ fst (f x), snd (f x))"
  by (simp add: rbind_def split: prod.splits)

lemma rbind_pair_Inl [simp]: "rbind (ws, Inl e) f = (ws, Inl e)"
  by (simp add: rbind_def)

lemma warn_count_eq: "warn_count w = ([w], Inr 1)"
  by (simp add: warn_count_def warn_def ret_def)

lemma verify_filtering_key_str:
  "verify_filtering_key env (KStr k) =
     (if endswith k '' min'' \<or> endswith k '' max'' then
        (if scalar_feature_exists env (take (length k - 4) k) then ([], Inr 0)
         else ([UnknownRangeFeature (take (length k - 4) k)], Inr 1))
      else if k = ''limit events auto'' then
        (if version_info0 env \<noteq> 2 then ([DeprecatedLimitEventsAuto], Inr 1) else ([], Inr 0))
      else ([UnknownFilteringKey (KStr k)], Inr 1))"
  by (simp add: verify_filtering_key_def key_endswith_def warn_count_eq ret_def)

lemma counted_warn_count: "counted (warn_count w)"
  by (simp add: counted_def warn_count_eq)

lemma counted_ret0: "counted (ret 0)"
  by (simp add: counted_def ret_def)

lemma counted_filtering_str: "counted (verify_filtering_key env (KStr k))"
  by (simp add: verify_filtering_key_str counted_def)

lemma counted_user: "counted (verify_user_key key)"
  by (cases key) (simp_all add: verify_user_key_def counted_warn_count counted_ret0)

lemma counted_finish:
  "counted m \<Longrightarrow> rbind m (\<lambda>wcount. ret (wcount = 0)) = (fst m, Inr (fst m = []))"
  by (auto simp add: counted_def ret_def)

lemma verify_section_key_str:
  "\<exists>ws. verify_section_key env sec (KStr k) = (ws, Inr (ws = []))"
proof -
  have "counted (if config_key_exists env sec (KStr k) then ret 0
        else if sec \<in> set [KStr ''plotting'', KStr ''analysis'']
          then warn_count (DeprecatedSection sec)
        else if sec = KStr ''filtering'' then verify_filtering_key env (KStr k)
        else if sec = KStr ''user'' then verify_user_key (KStr k)
        else if sec \<notin> set (config_keys env) then warn_count (UnknownSection sec)
        else warn_count (UnknownKey (KStr k) sec))"
    by (simp add: counted_warn_count counted_ret0 counted_filtering_str counted_user)
  then show ?thesis
    unfolding verify_section_key_def by (simp only: counted_finish) blast
qed


lemma cd_setitem_None:
  assumes "truthy (cd_section d)" and "cd_section d = Some sec"
    and "verify_section_key env sec (cd_k key) = (ws, Inr valid)"
  shows "cd_setitem env d key VNone = (ws @ [BadValue (Some sec) (cd_k key)], Inr d)"
  using assms by (simp add: cd_setitem_def Let_def warn_def ret_def)

lemma cd_setitem_empty:
  assumes "truthy (cd_section d)" and "cd_section d = Some sec"
    and "verify_section_key env sec (cd_k key) = (ws, Inr valid)"
  shows "cd_setitem env d key (VStr []) =
     (if valid then (ws @ [EmptyValue (Some sec) (cd_k key)], Inr d) else (ws, Inr d))"
  using assms by (simp add: cd_setitem_def Let_def warn_def ret_def)

lemma cd_setitem_valid:
  assumes "truthy (cd_section d)" and "cd_section d = Some sec"
    and "verify_section_key env sec (cd_k key) = (ws, Inr True)"
    and "v \<noteq> VNone" and "v \<noteq> VStr []"
  shows "cd_setitem env d key v =
     (ws @ (case get_config_value_type env sec (cd_k key) of
              None \<Rightarrow> []
            | Some typ \<Rightarrow> if isinstance v typ then []
                           else [WrongType (Some sec) (cd_k key) typ v]),
      case get_config_value_func env sec (cd_k key) v of
        Inl e \<Rightarrow> Inl e
      | Inr v' \<Rightarrow> Inr (d\<lparr>data := dict_set (cd_k key) v' (data d)\<rparr>))"
  using assms
  by (simp add: cd_setitem_def Let_def warn_def ret_def lift_def split: option.splits sum.splits)

lemma cd_setitem_invalid:
  assumes "truthy (cd_section d)" and "cd_section d = Some sec"
    and "verify_section_key env sec (cd_k key) = (ws, Inr False)"
    and "v \<noteq> VNone"
  shows "cd_setitem env d key v = (ws, Inr d)"
  using assms by (simp add: cd_setitem_def Let_def warn_def ret_def)

lemma cd_setitem_raises:
  assumes "truthy (cd_section d)" and "cd_section d = Some sec"
    and "verify_section_key env sec (cd_k key) = (ws, Inl e)"
  shows "cd_setitem env d key v = (ws, Inl e)"
  using assms by (simp add: cd_setitem_def Let_def warn_def ret_def)

lemma cd_setitem_unchecked:
  assumes "\<not> truthy (cd_section d)"
  shows "cd_setitem env d key v =
     (if v = VNone then ([BadValue (cd_section d) (cd_k key)], Inr d)
      else ([], Inr (d\<lparr>data := dict_set (cd_k key) v (data d)\<rparr>)))"
  using assms by (simp add: cd_setitem_def Let_def warn_def ret_def)


lemma lower_char_idem: "lower_char (lower_char c) = lower_char c"
proof -
  have "n \<le> 222 \<Longrightarrow> (of_char (char_of (n + 32)) :: nat) = n + 32" for n :: nat
    by (simp add: of_char_of)
  then show ?thesis
    by (auto simp add: lower_char_def Let_def)
qed

lemma lower_idem: "lower (lower s) = lower s"
  by (simp add: lower_def lower_char_idem)

lemma upper_char_ascii:
  assumes "(of_char c :: nat) < 128"
  shows "\<exists>c'. upper_char c = Some [c'] \<and> lower_char c' = lower_char c"
proof (cases "97 \<le> (of_char c :: nat) \<and> (of_char c :: nat) \<le> 122")
  case True
  define n where "n = (of_char c :: nat)"
  have c: "c = char_of n" by (simp add: n_def)
  have n: "97 \<le> n" "n \<le> 122" using True by (simp_all add: n_def)
  have 1: "(of_char (char_of (n - 32)) :: nat) = n - 32"
    using n by (simp add: of_char_of)
  have 2: "(of_char (char_of n) :: nat) = n" by (simp add: n_def)
  have "upper_char c = Some [char_of (n - 32)]"
    using n by (simp add: upper_char_def Let_def n_def)
  moreover have "lower_char (char_of (n - 32)) = lower_char c"
    using n unfolding c lower_char_def Let_def 1 2 by auto
  ultimately show ?thesis by blast
next
  case False
  then have "upper_char c = Some [c]"
    using assms by (auto simp add: upper_char_def Let_def)
  then show ?thesis by blast
qed

lemma upper_ascii:
  "is_ascii s \<Longrightarrow> \<exists>u. upper s = Some u \<and> lower u = lower s"
proof (induction s)
  case Nil
  then show ?case by (simp add: lower_def)
next
  case (Cons c cs)
  from Cons.prems have c: "(of_char c :: nat) < 128" and cs: "is_ascii cs"
    by (simp_all add: is_ascii_def)
  from upper_char_ascii [OF c] obtain c' where
    c': "upper_char c = Some [c']" "lower_char c' = lower_char c" by blast
  from Cons.IH [OF cs] obtain u where u: "upper cs = Some u" "lower u = lower cs" by blast
  show ?case using c' u by (simp add: lower_def)
qed

lemma dict_get_set: "dict_get (dict_set k v d) k' = (if k' = k then Some v else dict_get d k')"
  by (induction d) auto

lemma same_key:
  assumes "lower k' = lower k \<or> k' = lower k \<or> (is_ascii k \<and> upper k = Some k')"
  shows "cd_k (KStr k') = cd_k (KStr k)"
proof -
  have "lower k' = lower k"
    using assms upper_ascii [of k] by (auto simp add: lower_idem)
  then show ?thesis by (simp add: cd_k_def)
qed



lemma verify_section_key_shape:
  assumes "verify_section_key env sec key = (ws, Inr b)"
  shows "b = (ws = [])"
proof (cases key)
  case (KStr k)
  then show ?thesis using assms verify_section_key_str [of env sec k] by auto
next
  case (KInt i)
  have f: "verify_filtering_key env (KInt i) = ([], Inl AttributeError)"
    by (simp add: verify_filtering_key_def key_endswith_def raise_def)
  have "counted m \<or> m = ([], Inl AttributeError)"
    if "m = (if config_key_exists env sec key then ret 0
        else if sec \<in> set [KStr ''plotting'', KStr ''analysis'']
          then warn_count (DeprecatedSection sec)
        else if sec = KStr ''filtering'' then verify_filtering_key env key
        else if sec = KStr ''user'' then verify_user_key key
        else if sec \<notin> set (config_keys env) then warn_count (UnknownSection sec)
        else warn_count (UnknownKey key sec))" for m
    unfolding that KInt
    by (simp add: counted_warn_count counted_ret0 counted_user f)
  then have "counted m \<or> m = ([], Inl AttributeError)"
    if "verify_section_key env sec key = rbind m (\<lambda>wcount. ret (wcount = 0))"
      and "m = (if config_key_exists env sec key then ret 0
        else if sec \<in> set [KStr ''plotting'', KStr ''analysis'']
          then warn_count (DeprecatedSection sec)
        else if sec = KStr ''filtering'' then verify_filtering_key env key
        else if sec = KStr ''user'' then verify_user_key key
        else if sec \<notin> set (config_keys env) then warn_count (UnknownSection sec)
        else warn_count (UnknownKey key sec))" for m
    using that by blast
  then obtain m where m: "verify_section_key env sec key = rbind m (\<lambda>wcount. ret (wcount = 0))"
    "counted m \<or> m = ([], Inl AttributeError)"
    unfolding verify_section_key_def by blast
  from m(2) show ?thesis
  proof
    assume "counted m"
    then show ?thesis using m(1) assms by (simp add: counted_finish)
  next
    assume "m = ([], Inl AttributeError)"
    then show ?thesis using m(1) assms by simp
  qed
qed

subsection \<open>Claims about \<^verbatim>\<open>verify_section_key\<close> and \<^verbatim>\<open>ConfigurationDict\<close>\<close>




text \<open>
  Claim C1, as the code has it. For every ConfigurationDict with a section set (checks
  enabled) and every key whose validation returns (every text key does, see
  \<open>verify_section_key_str\<close>): assigning \<^verbatim>\<open>None\<close> or the empty string stores nothing and
  raises nothing, the dictionary is returned as it was, so its length and its entries are
  unchanged and an absent key stays absent. Assigning \<^verbatim>\<open>None\<close> always emits the bad-value
  warning. Assigning the empty string emits the empty-key warning when the key passed
  validation; when it did not, the warnings are those of the validation alone (there is at
  least one) and no empty-key warning is added.
\<close>

theorem cd_setitem_rejects_none_and_empty:
  assumes "truthy (cd_section d)" and "cd_section d = Some sec"
    and "verify_section_key env sec (cd_k key) = (ws, Inr valid)"
  shows "cd_setitem env d key VNone = (ws @ [BadValue (Some sec) (cd_k key)], Inr d)
    \<and> category_of (BadValue (Some sec) (cd_k key)) = BadUserConfigurationValueWarning
    \<and> outcome (cd_setitem env d key (VStr [])) = Inr d
    \<and> (valid \<longrightarrow> warnings_of (cd_setitem env d key (VStr []))
                      = ws @ [EmptyValue (Some sec) (cd_k key)])
    \<and> category_of (EmptyValue (Some sec) (cd_k key)) = EmptyConfigurationKeyWarning
    \<and> (\<not> valid \<longrightarrow> warnings_of (cd_setitem env d key (VStr [])) = ws \<and> ws \<noteq> [])"
  using cd_setitem_None [OF assms] cd_setitem_empty [OF assms]
    verify_section_key_shape [OF assms(3)]
  by (simp add: outcome_def warnings_of_def)

theorem cd_setitem_rejects_none_and_empty_witness:
  "cd_setitem ex_env
     \<lparr>cd_section = Some (KStr ''filtering''), data = [(KStr ''limit events'', VInt 0)]\<rparr>
     (KStr ''Enable Filters'') VNone
   = ([BadValue (Some (KStr ''filtering'')) (KStr ''enable filters'')],
      Inr \<lparr>cd_section = Some (KStr ''filtering''), data = [(KStr ''limit events'', VInt 0)]\<rparr>)
   \<and> warnings_of (cd_setitem ex_env
     \<lparr>cd_section = Some (KStr ''filtering''), data = [(KStr ''limit events'', VInt 0)]\<rparr>
     (KStr ''Enable Filters'') (VStr []))
   = [EmptyValue (Some (KStr ''filtering'')) (KStr ''enable filters'')]"
proof -
  let ?d = "\<lparr>cd_section = Some (KStr ''filtering''), data = [(KStr ''limit events'', VInt 0)]\<rparr>"
  have k: "cd_k (KStr ''Enable Filters'') = KStr ''enable filters''" by code_simp
  have 1: "truthy (cd_section ?d)" by code_simp
  have 2: "cd_section ?d = Some (KStr ''filtering'')" by simp
  have 3: "verify_section_key ex_env (KStr ''filtering'') (cd_k (KStr ''Enable Filters''))
             = ([], Inr True)" by code_simp
  show ?thesis
    using cd_setitem_rejects_none_and_empty [OF 1 2 3] by (simp add: k)
qed

text \<open>
  The claim as stated promises the empty-key warning for every key. For a key that fails
  validation the guard \<^verbatim>\<open>if valid and isinstance(value, str) and len(value) == 0\<close> is not
  entered: only the validation's own warning is emitted.
\<close>

theorem cd_setitem_empty_counterexample:
  "map category_of (warnings_of (cd_setitem ex_env
      \<lparr>cd_section = Some (KStr ''filtering''), data = []\<rparr> (KStr ''bogus'') (VStr [])))
   = [UnknownConfigurationKeyWarning]"
  by code_simp





text \<open>
  Claim C3, as the code has it. Keys are compared after \<^verbatim>\<open>str.lower\<close>. For every
  ConfigurationDict and all text keys \<open>k\<close> and \<open>k'\<close> with the same lower-case form (in
  particular \<open>k' = k.lower()\<close> for every \<open>k\<close>, and \<open>k' = k.upper()\<close> for every ASCII
  \<open>k\<close>), lookup, membership test, deletion and assignment through \<open>k'\<close> do exactly what
  they do through \<open>k\<close>; after an assignment through \<open>k\<close> that stored a value, reading
  through \<open>k'\<close> returns the stored value; a key that is not text is used unmodified.
\<close>

theorem case_insensitive_keys:
  assumes "lower k' = lower k \<or> k' = lower k \<or> (is_ascii k \<and> upper k = Some k')"
  shows "cd_getitem d (KStr k') = cd_getitem d (KStr k)
    \<and> cd_contains d (KStr k') = cd_contains d (KStr k)
    \<and> cd_delitem d (KStr k') = cd_delitem d (KStr k)
    \<and> cd_setitem env d (KStr k') v = cd_setitem env d (KStr k) v
    \<and> (\<forall>ws d'. cd_setitem env d (KStr k) v = (ws, Inr d') \<and> d' \<noteq> d \<longrightarrow>
          (\<exists>v'. cd_getitem d' (KStr k') = ret v' \<and> cd_getitem d' (KStr k) = ret v'
             \<and> (\<not> truthy (cd_section d) \<longrightarrow> v' = v)))
    \<and> cd_k (KInt i) = KInt i"
proof -
  have e: "cd_k (KStr k') = cd_k (KStr k)" by (rule same_key [OF assms])
  have stored: "\<exists>v'. cd_getitem d' (KStr k) = ret v' \<and> (\<not> truthy (cd_section d) \<longrightarrow> v' = v)"
    if "cd_setitem env d (KStr k) v = (ws, Inr d')" and "d' \<noteq> d" for ws d'
  proof (cases "truthy (cd_section d)")
    case False
    from cd_setitem_unchecked [OF False, of env "KStr k" v] that
    have "d' = d\<lparr>data := dict_set (cd_k (KStr k)) v (data d)\<rparr>"
      by (auto split: if_splits)
    then show ?thesis using False by (simp add: cd_getitem_def dict_get_set)
  next
    case True
    then obtain sec where sec: "cd_section d = Some sec"
      by (auto simp add: truthy_def split: option.splits)
    obtain ws0 r where v: "verify_section_key env sec (cd_k (KStr k)) = (ws0, r)"
      by (cases "verify_section_key env sec (cd_k (KStr k))")
    show ?thesis
    proof (cases r)
      case (Inl err)
      with cd_setitem_raises [OF True sec, of env "KStr k" ws0 err v] v that show ?thesis
        by simp
    next
      case (Inr valid)
      show ?thesis
      proof (cases "valid \<and> v \<noteq> VNone \<and> v \<noteq> VStr []")
        case False
        have v0: "verify_section_key env sec (cd_k (KStr k)) = (ws0, Inr valid)"
          using v Inr by simp
        have "snd (cd_setitem env d (KStr k) v) = Inr d"
        proof (cases "v = VNone")
          case True
          then show ?thesis using cd_setitem_None [OF \<open>truthy (cd_section d)\<close> sec v0] by simp
        next
          case nn: False
          show ?thesis
          proof (cases valid)
            case True
            with False nn have "v = VStr []" by simp
            then show ?thesis
              using cd_setitem_empty [OF \<open>truthy (cd_section d)\<close> sec v0] by simp
          next
            case False
            then show ?thesis
              using cd_setitem_invalid [OF \<open>truthy (cd_section d)\<close> sec _ nn, of env "KStr k" ws0] v0
              by simp
          qed
        qed
        with that show ?thesis by simp
      next
        case ok: True
        with v Inr have v': "verify_section_key env sec (cd_k (KStr k)) = (ws0, Inr True)"
          by simp
        from cd_setitem_valid [OF True sec v', of v] ok that
        obtain c where "d' = d\<lparr>data := dict_set (cd_k (KStr k)) c (data d)\<rparr>"
          by (auto split: sum.splits)
        then have "cd_getitem d' (KStr k) = ret c"
          by (simp add: cd_getitem_def dict_get_set)
        then show ?thesis using True by blast
      qed
    qed
  qed
  have g: "cd_getitem d' (KStr k') = cd_getitem d' (KStr k)" for d'
    unfolding cd_getitem_def e by (rule refl)
  have c: "cd_contains d (KStr k') = cd_contains d (KStr k)"
    unfolding cd_contains_def e by (rule refl)
  have del: "cd_delitem d (KStr k') = cd_delitem d (KStr k)"
    unfolding cd_delitem_def e by (rule refl)
  have set: "cd_setitem env d (KStr k') v = cd_setitem env d (KStr k) v"
    unfolding cd_setitem_def e by (rule refl)
  have "cd_k (KInt i) = KInt i" by (simp add: cd_k_def)
  then show ?thesis
    using stored g c del set by simp
qed

theorem case_insensitive_keys_witness:
  "cd_getitem \<lparr>cd_section = None, data = [(KStr ''channel width'', VInt 20)]\<rparr>
      (KStr ''CHANNEL WIDTH'')
    = cd_getitem \<lparr>cd_section = None, data = [(KStr ''channel width'', VInt 20)]\<rparr>
      (KStr ''Channel Width'')
   \<and> cd_getitem \<lparr>cd_section = None, data = [(KStr ''channel width'', VInt 20)]\<rparr>
      (KStr ''Channel Width'') = ret (VInt 20)"
proof -
  have 1: "lower ''CHANNEL WIDTH'' = lower ''Channel Width''
      \<or> ''CHANNEL WIDTH'' = lower ''Channel Width''
      \<or> (is_ascii ''Channel Width'' \<and> upper ''Channel Width'' = Some ''CHANNEL WIDTH'')"
    by code_simp
  have 2: "cd_getitem \<lparr>cd_section = None, data = [(KStr ''channel width'', VInt 20)]\<rparr>
      (KStr ''Channel Width'') = ret (VInt 20)"
    by code_simp
  show ?thesis
    using case_insensitive_keys [OF 1, of "\<lparr>cd_section = None, data = [(KStr ''channel width'', VInt 20)]\<rparr>"] 2
    by simp
qed

text \<open>
  The claim as stated speaks of every text key and of \<open>k.upper()\<close>. \<^verbatim>\<open>str.upper\<close> turns
  the sharp s (U+00DF) into SS, whose lower-case form is ss: a value stored under the
  sharp s is not found under its upper-case form.
\<close>

theorem case_insensitive_keys_counterexample:
  "upper [CHR 0xDF] = Some ''SS''
   \<and> cd_setitem ex_env \<lparr>cd_section = None, data = []\<rparr> (KStr [CHR 0xDF]) (VInt 1)
       = ([], Inr \<lparr>cd_section = None, data = [(KStr [CHR 0xDF], VInt 1)]\<rparr>)
   \<and> cd_getitem \<lparr>cd_section = None, data = [(KStr [CHR 0xDF], VInt 1)]\<rparr> (KStr [CHR 0xDF])
       = ([], Inr (VInt 1))
   \<and> cd_getitem \<lparr>cd_section = None, data = [(KStr [CHR 0xDF], VInt 1)]\<rparr> (KStr ''SS'')
       = ([], Inl (KeyError (KStr ''ss'')))
   \<and> \<not> cd_contains \<lparr>cd_section = None, data = [(KStr [CHR 0xDF], VInt 1)]\<rparr> (KStr ''SS'')"
  by code_simp

subsection \<open>Sequencing, \<^verbatim>\<open>update\<close> and the constructor\<close>


lemma rbind_Inr_elim:
  assumes "rbind m f = (ws, Inr y)"
  obtains ws1 x ws2 where "m = (ws1, Inr x)" and "f x = (ws2, Inr y)" and "ws = ws1 @ ws2"
proof (cases m)
  case (Pair ws1 r)
  show ?thesis
  proof (cases r)
    case (Inl e)
    with Pair assms show ?thesis by simp
  next
    case (Inr x)
    with Pair assms have "ws = ws1 @ fst (f x)" and "snd (f x) = Inr y" by simp_all
    then have "f x = (fst (f x), Inr y)" by (simp add: prod_eq_iff)
    with Pair Inr \<open>ws = ws1 @ fst (f x)\<close> that [of ws1 x "fst (f x)"] show ?thesis
      by simp
  qed
qed

lemma snd_rbind:
  "snd (rbind m f) = (case snd m of Inl e \<Rightarrow> Inl e | Inr x \<Rightarrow> snd (f x))"
  by (cases m) (simp split: sum.splits)

lemma verify_section_key_known:
  "config_key_exists env sec key \<Longrightarrow> verify_section_key env sec key = ([], Inr True)"
  by (simp add: verify_section_key_def ret_def)

lemma cd_setitem_result:
  assumes "cd_setitem env d key v = (ws, Inr d')"
  shows "d' = d \<or> (\<exists>x. d' = d\<lparr>data := dict_set (cd_k key) x (data d)\<rparr>)"
proof (cases "truthy (cd_section d)")
  case False
  from cd_setitem_unchecked [OF False, of env key v] assms show ?thesis
    by (auto split: if_splits)
next
  case True
  then obtain sec where sec: "cd_section d = Some sec"
    by (auto simp add: truthy_def split: option.splits)
  obtain ws0 r where v: "verify_section_key env sec (cd_k key) = (ws0, r)"
    by (cases "verify_section_key env sec (cd_k key)")
  show ?thesis
  proof (cases r)
    case (Inl err)
    with cd_setitem_raises [OF True sec, of env key ws0 err v] v assms show ?thesis by simp
  next
    case (Inr valid)
    with v have v0: "verify_section_key env sec (cd_k key) = (ws0, Inr valid)" by simp
    show ?thesis
    proof (cases "v = VNone")
      case True
      then show ?thesis
        using cd_setitem_None [OF \<open>truthy (cd_section d)\<close> sec v0] assms by simp
    next
      case nn: False
      show ?thesis
      proof (cases valid)
        case False
        then show ?thesis
          using cd_setitem_invalid [OF \<open>truthy (cd_section d)\<close> sec _ nn, of env key ws0] v0 assms
          by simp
      next
        case True
        show ?thesis
        proof (cases "v = VStr []")
          case True
          then show ?thesis
            using cd_setitem_empty [OF \<open>truthy (cd_section d)\<close> sec v0] assms by (simp split: if_splits)
        next
          case False
          from True v0 have v1: "verify_section_key env sec (cd_k key) = (ws0, Inr True)" by simp
          from cd_setitem_valid [OF \<open>truthy (cd_section d)\<close> sec v1 nn False] assms
          show ?thesis by (auto split: sum.splits)
        qed
      qed
    qed
  qed
qed

lemma dict_get_set_other: "k' \<noteq> k \<Longrightarrow> dict_get (dict_set k v d) k' = dict_get d k'"
  by (simp add: dict_get_set)

lemma cd_setitem_preserves:
  assumes "cd_setitem env d key v = (ws, Inr d')"
  shows "cd_section d' = cd_section d"
    and "k \<noteq> cd_k key \<Longrightarrow> dict_get (data d') k = dict_get (data d) k"
    and "dict_get (data d) k \<noteq> None \<Longrightarrow> dict_get (data d') k \<noteq> None"
  using cd_setitem_result [OF assms] by (auto simp add: dict_get_set)

lemma cd_update_preserves:
  assumes "cd_update env d E = (ws, Inr d')"
  shows "cd_section d' = cd_section d
    \<and> (\<forall>k. k \<notin> cd_k ` fst ` set E \<longrightarrow> dict_get (data d') k = dict_get (data d) k)
    \<and> (\<forall>k. dict_get (data d) k \<noteq> None \<longrightarrow> dict_get (data d') k \<noteq> None)"
  using assms
proof (induction E arbitrary: d ws)
  case Nil
  then show ?case by (simp add: ret_def)
next
  case (Cons p E)
  obtain key v where p: "p = (key, v)" by (cases p)
  from Cons.prems p have "rbind (cd_setitem env d key v) (\<lambda>d'. cd_update env d' E) = (ws, Inr d')"
    by simp
  then obtain ws1 d1 ws2 where 1: "cd_setitem env d key v = (ws1, Inr d1)"
    and 2: "cd_update env d1 E = (ws2, Inr d')"
    by (rule rbind_Inr_elim)
  from Cons.IH [OF 2] cd_setitem_preserves [OF 1] show ?case
    by (simp add: p)
qed


lemma mentioned_Cons:
  "mentioned ((sec, E) # newcfg) s =
     (if cd_k sec = s then cd_k ` fst ` set E else {}) \<union> mentioned newcfg s"
  by (auto simp add: mentioned_def)

lemma cf_update_preserves:
  assumes "cf_update env c newcfg = (ws, Inr c')"
  shows "disable_checks c' = disable_checks c
    \<and> (\<forall>s d. dict_get (cfg_dict c) s = Some d \<longrightarrow>
          (\<exists>d'. dict_get (cfg_dict c') s = Some d' \<and> cd_section d' = cd_section d
             \<and> (\<forall>k. k \<notin> mentioned newcfg s \<longrightarrow> dict_get (data d') k = dict_get (data d) k)
             \<and> (\<forall>k. dict_get (data d) k \<noteq> None \<longrightarrow> dict_get (data d') k \<noteq> None)))"
  using assms
proof (induction newcfg arbitrary: c ws)
  case Nil
  then show ?case by (simp add: ret_def)
next
  case (Cons p newcfg)
  obtain sec E where p: "p = (sec, E)" by (cases p)
  define c1 where "c1 = (if dict_get (cfg_dict c) (cd_k sec) = None
                then c\<lparr>cfg_dict := dict_set (cd_k sec) (new_section c sec) (cfg_dict c)\<rparr>
                else c)"
  have f1: "disable_checks c1 = disable_checks c" by (simp add: c1_def)
  obtain d0 where d0: "dict_get (cfg_dict c1) (cd_k sec) = Some d0"
    by (cases "dict_get (cfg_dict c) (cd_k sec)") (auto simp add: c1_def dict_get_set)
  have old: "dict_get (cfg_dict c1) s = Some d" if "dict_get (cfg_dict c) s = Some d" for s d
    using that by (cases "s = cd_k sec") (auto simp add: c1_def dict_get_set)
  from Cons.prems p d0
  have "rbind (cd_update env d0 E)
          (\<lambda>d'. cf_update env (c1\<lparr>cfg_dict := dict_set (cd_k sec) d' (cfg_dict c1)\<rparr>) newcfg)
        = (ws, Inr c')"
    by (simp add: c1_def Let_def)
  then obtain ws1 d1 ws2 where 1: "cd_update env d0 E = (ws1, Inr d1)"
    and 2: "cf_update env (c1\<lparr>cfg_dict := dict_set (cd_k sec) d1 (cfg_dict c1)\<rparr>) newcfg
              = (ws2, Inr c')"
    by (rule rbind_Inr_elim)
  let ?c2 = "c1\<lparr>cfg_dict := dict_set (cd_k sec) d1 (cfg_dict c1)\<rparr>"
  note u = cd_update_preserves [OF 1]
  note ih = Cons.IH [OF 2]
  have flag: "disable_checks c' = disable_checks c" using ih f1 by simp
  have sect: "\<exists>d'. dict_get (cfg_dict c') s = Some d' \<and> cd_section d' = cd_section d
             \<and> (\<forall>k. k \<notin> mentioned (p # newcfg) s \<longrightarrow> dict_get (data d') k = dict_get (data d) k)
             \<and> (\<forall>k. dict_get (data d) k \<noteq> None \<longrightarrow> dict_get (data d') k \<noteq> None)"
    if sd: "dict_get (cfg_dict c) s = Some d" for s d
  proof (cases "s = cd_k sec")
    case True
    with old [OF sd] d0 have "d0 = d" by simp
    have "dict_get (cfg_dict ?c2) s = Some d1" using True by (simp add: dict_get_set)
    with ih obtain d' where d': "dict_get (cfg_dict c') s = Some d'"
      "cd_section d' = cd_section d1"
      "\<forall>k. k \<notin> mentioned newcfg s \<longrightarrow> dict_get (data d') k = dict_get (data d1) k"
      "\<forall>k. dict_get (data d1) k \<noteq> None \<longrightarrow> dict_get (data d') k \<noteq> None"
      by blast
    show ?thesis
      using d' u \<open>d0 = d\<close> True by (auto simp add: p mentioned_Cons)
  next
    case False
    then have "dict_get (cfg_dict ?c2) s = Some d" using old [OF sd] by (simp add: dict_get_set)
    with ih obtain d' where d': "dict_get (cfg_dict c') s = Some d'"
      "cd_section d' = cd_section d"
      "\<forall>k. k \<notin> mentioned newcfg s \<longrightarrow> dict_get (data d') k = dict_get (data d) k"
      "\<forall>k. dict_get (data d) k \<noteq> None \<longrightarrow> dict_get (data d') k \<noteq> None"
      by blast
    show ?thesis
      using d' False by (auto simp add: p mentioned_Cons)
  qed
  from flag sect show ?case by blast
qed







subsection \<open>Claims about the text codec\<close>

text \<open>
  Claim C6. List round trip: \<^verbatim>\<open>keyval_typ2str("x", [1.0, 2.0])\<close> gives the value string
  "[1.000000000000, 2.000000000000]" (each element formatted with twelve decimals, the
  elements joined by a comma and a space inside brackets), and \<^verbatim>\<open>keyval_str2typ\<close> applied
  to that string gives back the list [1.0, 2.0], whatever the registry.
\<close>

theorem list_round_trip:
  "keyval_typ2str ''x'' (VList [VFloat (Fin False 1), VFloat (Fin False 2)])
     = (''x'', ''[1.000000000000, 2.000000000000]'')
   \<and> keyval_str2typ env ''x'' (VStr ''[1.000000000000, 2.000000000000]'')
     = ([], Inr (Some (''x'', VList [VFloat (Fin False 1), VFloat (Fin False 2)])))"
  by code_simp

theorem list_round_trip_witness:
  "keyval_str2typ ex_env ''x'' (VStr ''[1.000000000000, 2.000000000000]'')
     = ([], Inr (Some (''x'', VList [VFloat (Fin False 1), VFloat (Fin False 2)])))"
  using list_round_trip [of ex_env] by blast

text \<open>
  Claim C5 says that \<^verbatim>\<open>load_from_file\<close> never raises because of a malformed line. The
  code drops lines without a separator and lines with an empty value, as its comments say,
  but three kinds of malformed line raise: a key-value line before the first section
  header reads the unassigned local \<^verbatim>\<open>sec\<close>; a list value with an element that is not a
  number raises \<^verbatim>\<open>ValueError\<close> from \<^verbatim>\<open>float\<close> (the scalar branch catches it, the list branch
  does not); a line with an empty key makes \<^verbatim>\<open>keyval_str2typ\<close> return \<^verbatim>\<open>None\<close>, which
  cannot be unpacked. The last conjunct is a file whose malformed lines are dropped.
\<close>

theorem load_from_file_malformed_lines:
  "load_from_file ex_env [''a = 1''] = ([], Inl UnboundLocalError)
   \<and> load_from_file ex_env [''[s]'', ''x = [a]''] = ([], Inl ValueError)
   \<and> load_from_file ex_env [''[s]'', '' = 5''] = ([], Inl TypeError)
   \<and> load_from_file ex_env [''[bogus]'', ''foo = 1'', ''junk'', ''bar = '', ''# c'']
       = ([], Inr [(KStr ''bogus'',
                    \<lparr>cd_section = None, data = [(KStr ''foo'', VFloat (Fin False 1))]\<rparr>)])"
  by code_simp

subsection \<open>Claims about \<^verbatim>\<open>Configuration\<close>\<close>

text \<open>
  Claim C9. Reading a section of a Configuration under a name that is absent and is neither
  a section name of the registry nor "user" provisions nothing (the configuration is left
  as it was) and raises the key-lookup error; and whenever a read does change the
  configuration, the name was absent and is a section name of the registry or "user".
\<close>

theorem cf_getitem_unknown_section:
  assumes "\<not> cf_contains c sec" and "sec \<notin> set (config_keys env)" and "sec \<noteq> KStr ''user''"
  shows "cf_getitem env c sec = (c, ([], Inl (KeyError (cd_k sec))))
    \<and> (\<forall>c0 sec0. fst (cf_getitem env c0 sec0) \<noteq> c0 \<longrightarrow>
          \<not> cf_contains c0 sec0 \<and> (sec0 \<in> set (config_keys env) \<or> sec0 = KStr ''user''))"
proof -
  have "dict_get (cfg_dict c) (cd_k sec) = None"
    using assms(1) by (simp add: cf_contains_def)
  then have "cf_getitem env c sec = (c, ([], Inl (KeyError (cd_k sec))))"
    using assms by (simp add: cf_getitem_def Let_def raise_def)
  moreover have "\<not> cf_contains c0 sec0 \<and> (sec0 \<in> set (config_keys env) \<or> sec0 = KStr ''user'')"
    if "fst (cf_getitem env c0 sec0) \<noteq> c0" for c0 sec0
    using that by (simp add: cf_getitem_def Let_def split: if_splits)
  ultimately show ?thesis by blast
qed

theorem cf_getitem_unknown_section_witness:
  "cf_getitem ex_env \<lparr>disable_checks = False, cfg_dict = []\<rparr> (KStr ''Bogus'')
     = (\<lparr>disable_checks = False, cfg_dict = []\<rparr>, ([], Inl (KeyError (KStr ''bogus''))))
   \<and> cf_getitem ex_env \<lparr>disable_checks = False, cfg_dict = []\<rparr> (KStr ''setup'')
     = (\<lparr>disable_checks = False,
          cfg_dict = [(KStr ''setup'', \<lparr>cd_section = Some (KStr ''setup''), data = []\<rparr>)]\<rparr>,
        ([], Inr \<lparr>cd_section = Some (KStr ''setup''), data = []\<rparr>))"
proof -
  have 1: "\<not> cf_contains \<lparr>disable_checks = False, cfg_dict = []\<rparr> (KStr ''Bogus'')"
    by code_simp
  have 2: "KStr ''Bogus'' \<notin> set (config_keys ex_env)" by code_simp
  have 3: "KStr ''Bogus'' \<noteq> KStr ''user''" by simp
  have k: "cd_k (KStr ''Bogus'') = KStr ''bogus''" by code_simp
  have 4: "cf_getitem ex_env \<lparr>disable_checks = False, cfg_dict = []\<rparr> (KStr ''setup'')
     = (\<lparr>disable_checks = False,
          cfg_dict = [(KStr ''setup'', \<lparr>cd_section = Some (KStr ''setup''), data = []\<rparr>)]\<rparr>,
        ([], Inr \<lparr>cd_section = Some (KStr ''setup''), data = []\<rparr>))"
    by code_simp
  show ?thesis
    using cf_getitem_unknown_section [OF 1 2 3] 4 by (simp add: k)
qed



subsection \<open>The bootstrapped defaults\<close>


lemma cd_k_filtering: "cd_k (KStr ''filtering'') = KStr ''filtering''"
  by code_simp

lemma cf_getitem_filtering_only:
  "cf_getitem env (filtering_only xs) (KStr ''filtering'')
     = (filtering_only xs, ret \<lparr>cd_section = Some (KStr ''filtering''), data = xs\<rparr>)"
  by (simp add: cf_getitem_def cf_contains_def filtering_only_def cd_k_filtering Let_def)

lemma cf_getitem_filtering_empty:
  assumes "KStr ''filtering'' \<in> set (config_keys env)"
  shows "cf_getitem env \<lparr>disable_checks = False, cfg_dict = []\<rparr> (KStr ''filtering'')
     = (filtering_only [], ret \<lparr>cd_section = Some (KStr ''filtering''), data = []\<rparr>)"
  using assms
  by (simp add: cf_getitem_def cf_contains_def filtering_only_def cd_k_filtering Let_def
      new_section_def)

lemma truthy_filtering: "truthy (Some (KStr ''filtering''))"
  by (simp add: truthy_def)

lemma snd_cd_setitem_known:
  assumes "cd_section d = Some (KStr ''filtering'')"
    and "cd_k key = key"
    and "config_key_exists env (KStr ''filtering'') key"
    and "get_config_value_func env (KStr ''filtering'') key v = Inr v"
    and "v \<noteq> VNone" and "v \<noteq> VStr []"
  shows "snd (cd_setitem env d key v) = Inr (d\<lparr>data := dict_set key v (data d)\<rparr>)"
proof -
  have t: "truthy (cd_section d)" using assms(1) by (simp add: truthy_def)
  have v: "verify_section_key env (KStr ''filtering'') (cd_k key) = ([], Inr True)"
    using assms(2,3) by (simp add: verify_section_key_known)
  show ?thesis
    using cd_setitem_valid [OF t assms(1) v assms(5,6)] assms(2,4) by simp
qed

lemma snd_set_default_exact:
  assumes "KStr ''filtering'' \<in> set (config_keys env)"
    and "c = \<lparr>disable_checks = False, cfg_dict = []\<rparr> \<and> xs = [] \<or> c = filtering_only xs"
    and "cd_k key = key"
    and "config_key_exists env (KStr ''filtering'') key"
    and "get_config_value_func env (KStr ''filtering'') key v = Inr v"
    and "v \<noteq> VNone" and "v \<noteq> VStr []"
  shows "snd (set_default env c key v) = Inr (filtering_only (dict_set key v xs))"
proof -
  have g: "cf_getitem env c (KStr ''filtering'')
      = (filtering_only xs, ret \<lparr>cd_section = Some (KStr ''filtering''), data = xs\<rparr>)"
    using assms(2) cf_getitem_filtering_empty [OF assms(1)] cf_getitem_filtering_only [of env xs]
    by auto
  have s: "snd (cd_setitem env \<lparr>cd_section = Some (KStr ''filtering''), data = xs\<rparr> key v)
      = Inr \<lparr>cd_section = Some (KStr ''filtering''), data = dict_set key v xs\<rparr>"
    using snd_cd_setitem_known [OF _ assms(3-7), of "\<lparr>cd_section = Some (KStr ''filtering''), data = xs\<rparr>"]
    by simp
  show ?thesis
    unfolding set_default_def Let_def g
    by (simp add: snd_rbind ret_def s filtering_only_def cd_k_filtering)
qed

lemma snd_check_defaults_exact:
  "snd (check_defaults env (filtering_only xs) items) =
     (case find (\<lambda>item. \<not> cd_contains \<lparr>cd_section = Some (KStr ''filtering''), data = xs\<rparr> item) items of
        Some item \<Rightarrow> Inl (NoDefaultValue item)
      | None \<Rightarrow> Inr (filtering_only xs))"
proof (induction items)
  case Nil
  then show ?case by (simp add: ret_def)
next
  case (Cons item0 items)
  show ?case
    using Cons.IH
    by (simp add: cf_getitem_filtering_only Let_def snd_rbind ret_def raise_def)
qed


lemma default_keys_normal:
  "cd_k (KStr ''remove invalid events'') = KStr ''remove invalid events''"
  "cd_k (KStr ''enable filters'') = KStr ''enable filters''"
  "cd_k (KStr ''limit events'') = KStr ''limit events''"
  "cd_k (KStr ''polygon filters'') = KStr ''polygon filters''"
  "cd_k (KStr ''hierarchy parent'') = KStr ''hierarchy parent''"
  by code_simp+

lemma snd_init_defaults_exact:
  assumes "KStr ''filtering'' \<in> set (config_keys env)"
    and "\<forall>(k, v) \<in> set default_filter_values.
           config_key_exists env (KStr ''filtering'') k
           \<and> get_config_value_func env (KStr ''filtering'') k v = Inr v"
  shows "snd (init_default_filter_values env \<lparr>disable_checks = False, cfg_dict = []\<rparr>) =
     (case find (\<lambda>item. \<not> cd_contains
                   \<lparr>cd_section = Some (KStr ''filtering''), data = default_filter_values\<rparr> item)
             (CFG_ANALYSIS_filtering env) of
        Some item \<Rightarrow> Inl (NoDefaultValue item)
      | None \<Rightarrow> Inr (filtering_only default_filter_values))"
proof -
  note h = assms(2) [unfolded default_filter_values_def, simplified]
  have s1: "snd (set_default env \<lparr>disable_checks = False, cfg_dict = []\<rparr>
                  (KStr ''remove invalid events'') (VBool False))
            = Inr (filtering_only [(KStr ''remove invalid events'', VBool False)])"
    using snd_set_default_exact [OF assms(1), of "\<lparr>disable_checks = False, cfg_dict = []\<rparr>" "[]"
        "KStr ''remove invalid events''" "VBool False"] h
    by (simp add: default_keys_normal)
  have s2: "snd (set_default env (filtering_only [(KStr ''remove invalid events'', VBool False)])
                  (KStr ''enable filters'') (VBool True))
            = Inr (filtering_only [(KStr ''remove invalid events'', VBool False),
                                   (KStr ''enable filters'', VBool True)])"
    using snd_set_default_exact [OF assms(1), of _ "[(KStr ''remove invalid events'', VBool False)]"
        "KStr ''enable filters''" "VBool True"] h
    by (simp add: default_keys_normal)
  have s3: "snd (set_default env (filtering_only [(KStr ''remove invalid events'', VBool False),
                                   (KStr ''enable filters'', VBool True)])
                  (KStr ''limit events'') (VInt 0))
            = Inr (filtering_only [(KStr ''remove invalid events'', VBool False),
                                   (KStr ''enable filters'', VBool True),
                                   (KStr ''limit events'', VInt 0)])"
    using snd_set_default_exact [OF assms(1), of _ "[(KStr ''remove invalid events'', VBool False),
                                   (KStr ''enable filters'', VBool True)]"
        "KStr ''limit events''" "VInt 0"] h
    by (simp add: default_keys_normal)
  have s4: "snd (set_default env (filtering_only [(KStr ''remove invalid events'', VBool False),
                                   (KStr ''enable filters'', VBool True),
                                   (KStr ''limit events'', VInt 0)])
                  (KStr ''polygon filters'') (VList []))
            = Inr (filtering_only [(KStr ''remove invalid events'', VBool False),
                                   (KStr ''enable filters'', VBool True),
                                   (KStr ''limit events'', VInt 0),
                                   (KStr ''polygon filters'', VList [])])"
    using snd_set_default_exact [OF assms(1), of _ "[(KStr ''remove invalid events'', VBool False),
                                   (KStr ''enable filters'', VBool True),
                                   (KStr ''limit events'', VInt 0)]"
        "KStr ''polygon filters''" "VList []"] h
    by (simp add: default_keys_normal)
  have s5: "snd (set_default env (filtering_only [(KStr ''remove invalid events'', VBool False),
                                   (KStr ''enable filters'', VBool True),
                                   (KStr ''limit events'', VInt 0),
                                   (KStr ''polygon filters'', VList [])])
                  (KStr ''hierarchy parent'') (VStr ''none''))
            = Inr (filtering_only default_filter_values)"
    using snd_set_default_exact [OF assms(1), of _ "[(KStr ''remove invalid events'', VBool False),
                                   (KStr ''enable filters'', VBool True),
                                   (KStr ''limit events'', VInt 0),
                                   (KStr ''polygon filters'', VList [])]"
        "KStr ''hierarchy parent''" "VStr ''none''"] h
    by (simp add: default_keys_normal default_filter_values_def)
  show ?thesis
    unfolding init_default_filter_values_def
    by (simp add: snd_rbind s1 s2 s3 s4 s5 snd_check_defaults_exact)
qed

lemma snd_cf_init_empty:
  "snd (cf_init env [] [] dc)
     = snd (init_default_filter_values env \<lparr>disable_checks = dc, cfg_dict = []\<rparr>)"
  by (simp add: cf_init_def snd_rbind ret_def split: sum.splits)

lemma cd_setitem_returns:
  assumes "cd_section d = Some sec" and "truthy (cd_section d)"
    and "get_config_value_func env sec (cd_k (KStr k)) v = Inr v'"
  shows "\<exists>ws d'. cd_setitem env d (KStr k) v = (ws, Inr d')"
proof -
  have "\<exists>k'. cd_k (KStr k) = KStr k'" by (simp add: cd_k_def)
  then obtain k' where k': "cd_k (KStr k) = KStr k'" by blast
  from verify_section_key_str [of env sec k'] obtain ws where
    v: "verify_section_key env sec (cd_k (KStr k)) = (ws, Inr (ws = []))"
    unfolding k' by blast
  show ?thesis
  proof (cases "v = VNone")
    case True
    then show ?thesis using cd_setitem_None [OF assms(2,1) v] by simp
  next
    case nn: False
    show ?thesis
    proof (cases "ws = []")
      case False
      with v have "verify_section_key env sec (cd_k (KStr k)) = (ws, Inr False)" by simp
      from cd_setitem_invalid [OF assms(2,1) this nn] show ?thesis by simp
    next
      case True
      with v have v1: "verify_section_key env sec (cd_k (KStr k)) = (ws, Inr True)" by simp
      show ?thesis
      proof (cases "v = VStr []")
        case True
        then show ?thesis using cd_setitem_empty [OF assms(2,1) v1] by simp
      next
        case False
        from cd_setitem_valid [OF assms(2,1) v1 nn False] assms(3) show ?thesis by simp
      qed
    qed
  qed
qed

lemma set_default_covered:
  assumes "KStr ''filtering'' \<in> set (config_keys env)"
    and "disable_checks c = False"
    and "\<forall>d. dict_get (cfg_dict c) (KStr ''filtering'') = Some d \<longrightarrow>
           cd_section d = Some (KStr ''filtering'')
           \<and> (\<forall>k. dict_get (data d) k \<noteq> None \<longrightarrow> dict_get default_filter_values k \<noteq> None)"
    and "cd_k (KStr k) = KStr k"
    and "dict_get default_filter_values (KStr k) \<noteq> None"
    and "get_config_value_func env (KStr ''filtering'') (KStr k) v = Inr v'"
  shows "\<exists>ws c' d'. set_default env c (KStr k) v = (ws, Inr c')
    \<and> disable_checks c' = False
    \<and> dict_get (cfg_dict c') (KStr ''filtering'') = Some d'
    \<and> (\<forall>d. dict_get (cfg_dict c') (KStr ''filtering'') = Some d \<longrightarrow>
           cd_section d = Some (KStr ''filtering'')
           \<and> (\<forall>k. dict_get (data d) k \<noteq> None \<longrightarrow> dict_get default_filter_values k \<noteq> None))"
proof -
  obtain c1 d where g: "cf_getitem env c (KStr ''filtering'') = (c1, ret d)"
    and c1: "disable_checks c1 = False"
    and d: "cd_section d = Some (KStr ''filtering'')"
      "\<forall>k. dict_get (data d) k \<noteq> None \<longrightarrow> dict_get default_filter_values k \<noteq> None"
  proof (cases "dict_get (cfg_dict c) (KStr ''filtering'')")
    case None
    then have "cf_getitem env c (KStr ''filtering'')
        = (c\<lparr>cfg_dict := dict_set (KStr ''filtering'')
               \<lparr>cd_section = Some (KStr ''filtering''), data = []\<rparr> (cfg_dict c)\<rparr>,
           ret \<lparr>cd_section = Some (KStr ''filtering''), data = []\<rparr>)"
      using assms(1,2)
      by (simp add: cf_getitem_def cf_contains_def cd_k_filtering Let_def new_section_def
          dict_get_set)
    then show ?thesis using that assms(2) by simp
  next
    case (Some d0)
    then have "cf_getitem env c (KStr ''filtering'') = (c, ret d0)"
      by (simp add: cf_getitem_def cf_contains_def cd_k_filtering Let_def)
    then show ?thesis using that assms(2,3) Some by simp
  qed
  have t: "truthy (cd_section d)" using d(1) by (simp add: truthy_def)
  from cd_setitem_returns [OF d(1) t, of env k v v'] assms(4,6)
  obtain ws d' where s: "cd_setitem env d (KStr k) v = (ws, Inr d')" by auto
  from cd_setitem_result [OF s] have d': "cd_section d' = Some (KStr ''filtering'')"
    "\<forall>j. dict_get (data d') j \<noteq> None \<longrightarrow> dict_get default_filter_values j \<noteq> None"
    using d assms(4,5) by (auto simp add: dict_get_set split: if_splits)
  have "set_default env c (KStr k) v
      = (ws, Inr (c1\<lparr>cfg_dict := dict_set (KStr ''filtering'') d' (cfg_dict c1)\<rparr>))"
    unfolding set_default_def Let_def g by (simp add: s ret_def cd_k_filtering)
  then show ?thesis using c1 d' by (simp add: dict_get_set)
qed

lemma check_defaults_uncovered:
  assumes "dict_get (cfg_dict c) (KStr ''filtering'') = Some d"
    and "\<forall>k. dict_get (data d) k \<noteq> None \<longrightarrow> dict_get default_filter_values k \<noteq> None"
    and "\<exists>item \<in> set items. dict_get default_filter_values (cd_k item) = None"
  shows "\<exists>item. snd (check_defaults env c items) = Inl (NoDefaultValue item)"
  using assms(3)
proof (induction items)
  case Nil
  then show ?case by simp
next
  case (Cons item0 items)
  have g: "cf_getitem env c (KStr ''filtering'') = (c, ret d)"
    using assms(1) by (simp add: cf_getitem_def cf_contains_def cd_k_filtering Let_def)
  show ?case
  proof (cases "cd_contains d item0")
    case False
    then show ?thesis by (simp add: g Let_def raise_def)
  next
    case True
    then have "dict_get default_filter_values (cd_k item0) \<noteq> None"
      using assms(2) by (simp add: cd_contains_def)
    with Cons.prems have "\<exists>item \<in> set items. dict_get default_filter_values (cd_k item) = None"
      by auto
    from Cons.IH [OF this] True show ?thesis by (simp add: g Let_def)
  qed
qed


lemma init_defaults_uncovered:
  assumes "KStr ''filtering'' \<in> set (config_keys env)"
    and "\<forall>(k, v) \<in> set default_filter_values.
           \<exists>v'. get_config_value_func env (KStr ''filtering'') k v = Inr v'"
    and "\<exists>item \<in> set (CFG_ANALYSIS_filtering env).
           dict_get default_filter_values (cd_k item) = None"
  shows "\<exists>item. snd (init_default_filter_values env \<lparr>disable_checks = False, cfg_dict = []\<rparr>)
            = Inl (NoDefaultValue item)"
proof -
  note h = assms(2) [unfolded default_filter_values_def, simplified]
  have m: "dict_get default_filter_values (KStr ''remove invalid events'') \<noteq> None"
    "dict_get default_filter_values (KStr ''enable filters'') \<noteq> None"
    "dict_get default_filter_values (KStr ''limit events'') \<noteq> None"
    "dict_get default_filter_values (KStr ''polygon filters'') \<noteq> None"
    "dict_get default_filter_values (KStr ''hierarchy parent'') \<noteq> None"
    by (simp_all add: default_filter_values_def)
  let ?I = "\<lambda>c. \<forall>d. dict_get (cfg_dict c) (KStr ''filtering'') = Some d \<longrightarrow>
           cd_section d = Some (KStr ''filtering'')
           \<and> (\<forall>k. dict_get (data d) k \<noteq> None \<longrightarrow> dict_get default_filter_values k \<noteq> None)"
  let ?c0 = "\<lparr>disable_checks = False, cfg_dict = []\<rparr>"
  have i0: "disable_checks ?c0 = False" "?I ?c0" by simp_all
  from h obtain v1 where
    "get_config_value_func env (KStr ''filtering'') (KStr ''remove invalid events'') (VBool False) = Inr v1"
    by blast
  from set_default_covered [OF assms(1) i0 default_keys_normal(1) m(1) this]
  obtain w1 c1 where e1: "set_default env ?c0 (KStr ''remove invalid events'') (VBool False) = (w1, Inr c1)"
    and i1: "disable_checks c1 = False" "?I c1" by blast
  from h obtain v2 where
    "get_config_value_func env (KStr ''filtering'') (KStr ''enable filters'') (VBool True) = Inr v2"
    by blast
  from set_default_covered [OF assms(1) i1 default_keys_normal(2) m(2) this]
  obtain w2 c2 where e2: "set_default env c1 (KStr ''enable filters'') (VBool True) = (w2, Inr c2)"
    and i2: "disable_checks c2 = False" "?I c2" by blast
  from h obtain v3 where
    "get_config_value_func env (KStr ''filtering'') (KStr ''limit events'') (VInt 0) = Inr v3"
    by blast
  from set_default_covered [OF assms(1) i2 default_keys_normal(3) m(3) this]
  obtain w3 c3 where e3: "set_default env c2 (KStr ''limit events'') (VInt 0) = (w3, Inr c3)"
    and i3: "disable_checks c3 = False" "?I c3" by blast
  from h obtain v4 where
    "get_config_value_func env (KStr ''filtering'') (KStr ''polygon filters'') (VList []) = Inr v4"
    by blast
  from set_default_covered [OF assms(1) i3 default_keys_normal(4) m(4) this]
  obtain w4 c4 where e4: "set_default env c3 (KStr ''polygon filters'') (VList []) = (w4, Inr c4)"
    and i4: "disable_checks c4 = False" "?I c4" by blast
  from h obtain v5 where
    "get_config_value_func env (KStr ''filtering'') (KStr ''hierarchy parent'') (VStr ''none'') = Inr v5"
    by blast
  from set_default_covered [OF assms(1) i4 default_keys_normal(5) m(5) this]
  obtain w5 c5 d5 where e5: "set_default env c4 (KStr ''hierarchy parent'') (VStr ''none'') = (w5, Inr c5)"
    and d5: "dict_get (cfg_dict c5) (KStr ''filtering'') = Some d5"
    and i5: "?I c5" by blast
  from i5 d5 have "\<forall>k. dict_get (data d5) k \<noteq> None \<longrightarrow> dict_get default_filter_values k \<noteq> None"
    by blast
  from check_defaults_uncovered [OF d5 this assms(3), of env]
  obtain item where "snd (check_defaults env c5 (CFG_ANALYSIS_filtering env)) = Inl (NoDefaultValue item)"
    by blast
  then have "snd (init_default_filter_values env ?c0) = Inl (NoDefaultValue item)"
    unfolding init_default_filter_values_def by (simp add: e1 e2 e3 e4 e5)
  then show ?thesis by blast
qed

text \<open>
  Claim C2. Take a registry that has the section "filtering" and whose conversion functions
  return on the five bootstrapped defaults. Constructing a Configuration with no files and
  no dictionary then does the following. If the registry knows the five default keys and
  its conversion functions leave the five default values as they are, the constructor
  either returns the configuration whose section "filtering" holds exactly
  remove invalid events: False, enable filters: True, limit events: 0, polygon filters: [],
  hierarchy parent: "none", or, when a key of \<^verbatim>\<open>dfn.CFG_ANALYSIS["filtering"]\<close> is not among
  them, raises the missing-default error for the first such key. And whenever the key list
  contains a key that is not covered by the five defaults, construction fails with the
  missing-default error instead of returning.
\<close>

theorem default_completeness:
  assumes "KStr ''filtering'' \<in> set (config_keys env)"
    and "\<forall>(k, v) \<in> set default_filter_values.
           \<exists>v'. get_config_value_func env (KStr ''filtering'') k v = Inr v'"
  shows "((\<forall>(k, v) \<in> set default_filter_values.
             config_key_exists env (KStr ''filtering'') k
             \<and> get_config_value_func env (KStr ''filtering'') k v = Inr v) \<longrightarrow>
          outcome (cf_init env [] [] False) =
            (case find (\<lambda>item. \<not> cd_contains
                          \<lparr>cd_section = Some (KStr ''filtering''), data = default_filter_values\<rparr>
                          item)
                    (CFG_ANALYSIS_filtering env) of
               Some item \<Rightarrow> Inl (NoDefaultValue item)
             | None \<Rightarrow> Inr (filtering_only default_filter_values)))
    \<and> ((\<exists>item \<in> set (CFG_ANALYSIS_filtering env).
            \<not> cd_contains \<lparr>cd_section = Some (KStr ''filtering''), data = default_filter_values\<rparr>
                item) \<longrightarrow>
        (\<exists>item. outcome (cf_init env [] [] False) = Inl (NoDefaultValue item)))"
proof (intro conjI impI)
  assume "\<forall>(k, v) \<in> set default_filter_values.
             config_key_exists env (KStr ''filtering'') k
             \<and> get_config_value_func env (KStr ''filtering'') k v = Inr v"
  from snd_init_defaults_exact [OF assms(1) this]
  show "outcome (cf_init env [] [] False) =
            (case find (\<lambda>item. \<not> cd_contains
                          \<lparr>cd_section = Some (KStr ''filtering''), data = default_filter_values\<rparr>
                          item)
                    (CFG_ANALYSIS_filtering env) of
               Some item \<Rightarrow> Inl (NoDefaultValue item)
             | None \<Rightarrow> Inr (filtering_only default_filter_values))"
    by (simp add: outcome_def snd_cf_init_empty)
next
  assume "\<exists>item \<in> set (CFG_ANALYSIS_filtering env).
            \<not> cd_contains \<lparr>cd_section = Some (KStr ''filtering''), data = default_filter_values\<rparr>
                item"
  then have "\<exists>item \<in> set (CFG_ANALYSIS_filtering env).
           dict_get default_filter_values (cd_k item) = None"
    by (simp add: cd_contains_def)
  from init_defaults_uncovered [OF assms this]
  show "\<exists>item. outcome (cf_init env [] [] False) = Inl (NoDefaultValue item)"
    by (simp add: outcome_def snd_cf_init_empty)
qed

theorem default_completeness_witness:
  "outcome (cf_init ex_env [] [] False) = Inr (filtering_only default_filter_values)
   \<and> (\<exists>item. outcome (cf_init
         (ex_env\<lparr>CFG_ANALYSIS_filtering := [KStr ''Enable Filters'', KStr ''new filter'']\<rparr>)
         [] [] False) = Inl (NoDefaultValue item))"
proof -
  let ?e2 = "ex_env\<lparr>CFG_ANALYSIS_filtering := [KStr ''Enable Filters'', KStr ''new filter'']\<rparr>"
  have 1: "KStr ''filtering'' \<in> set (config_keys ex_env)" by code_simp
  have 3: "\<forall>(k, v) \<in> set default_filter_values.
             config_key_exists ex_env (KStr ''filtering'') k
             \<and> get_config_value_func ex_env (KStr ''filtering'') k v = Inr v"
    by code_simp
  then have 2: "\<forall>(k, v) \<in> set default_filter_values.
           \<exists>v'. get_config_value_func ex_env (KStr ''filtering'') k v = Inr v'"
    by fastforce
  have 4: "find (\<lambda>item. \<not> cd_contains
                          \<lparr>cd_section = Some (KStr ''filtering''), data = default_filter_values\<rparr>
                          item)
                    (CFG_ANALYSIS_filtering ex_env) = None"
    by code_simp
  have 5: "KStr ''filtering'' \<in> set (config_keys ?e2)" by code_simp
  have 6: "\<forall>(k, v) \<in> set default_filter_values.
           \<exists>v'. get_config_value_func ?e2 (KStr ''filtering'') k v = Inr v'"
    using 2 by (simp add: ex_env_def)
  have 7: "\<exists>item \<in> set (CFG_ANALYSIS_filtering ?e2).
            \<not> cd_contains \<lparr>cd_section = Some (KStr ''filtering''), data = default_filter_values\<rparr>
                item"
    by code_simp
  show ?thesis
    using default_completeness [OF 1 2] default_completeness [OF 5 6] 3 4 7
    by simp
qed

subsection \<open>Key-level merge\<close>
lemma cd_k_setup: "cd_k (KStr ''setup'') = KStr ''setup''"
  by code_simp

lemma setup_keys_normal:
  "cd_k (KStr ''channel width'') = KStr ''channel width''"
  "cd_k (KStr ''flow rate'') = KStr ''flow rate''"
  by code_simp+

lemma cf_update_single:
  assumes "c1 = (if dict_get (cfg_dict c) (cd_k sec) = None
                then c\<lparr>cfg_dict := dict_set (cd_k sec) (new_section c sec) (cfg_dict c)\<rparr>
                else c)"
    and "dict_get (cfg_dict c1) (cd_k sec) = Some d0"
    and "cd_update env d0 E = (ws, Inr d1)"
  shows "cf_update env c [(sec, E)]
    = (ws, Inr (c1\<lparr>cfg_dict := dict_set (cd_k sec) d1 (cfg_dict c1)\<rparr>))"
  apply (subst cf_update.simps)
  unfolding Let_def assms(1) [symmetric]
  by (simp add: assms(2,3) ret_def)

lemma update_one_setup_key:
  assumes "\<forall>d0. dict_get (cfg_dict c) (KStr ''setup'') = Some d0 \<longrightarrow>
             \<not> truthy (cd_section d0) \<or> cd_section d0 = Some (KStr ''setup'')"
    and "cd_k (KStr k) = KStr k"
    and "config_key_exists env (KStr ''setup'') (KStr k)"
    and "get_config_value_func env (KStr ''setup'') (KStr k) v = Inr a"
    and "v \<noteq> VNone" and "v \<noteq> VStr []"
  shows "\<exists>ws c1 d1. cf_update env c [(KStr ''setup'', [(KStr k, v)])] = (ws, Inr c1)
    \<and> dict_get (cfg_dict c1) (KStr ''setup'') = Some d1
    \<and> dict_get (data d1) (KStr k) \<noteq> None
    \<and> (\<not> truthy (cd_section d1) \<or> cd_section d1 = Some (KStr ''setup''))"
proof -
  define c1 where "c1 = (if dict_get (cfg_dict c) (KStr ''setup'') = None
                then c\<lparr>cfg_dict := dict_set (KStr ''setup'') (new_section c (KStr ''setup''))
                                     (cfg_dict c)\<rparr>
                else c)"
  obtain d0 where d0: "dict_get (cfg_dict c1) (KStr ''setup'') = Some d0"
    and s0: "\<not> truthy (cd_section d0) \<or> cd_section d0 = Some (KStr ''setup'')"
  proof (cases "dict_get (cfg_dict c) (KStr ''setup'')")
    case None
    then have "dict_get (cfg_dict c1) (KStr ''setup'') = Some (new_section c (KStr ''setup''))"
      by (simp add: c1_def dict_get_set)
    moreover have "\<not> truthy (cd_section (new_section c (KStr ''setup'')))
        \<or> cd_section (new_section c (KStr ''setup'')) = Some (KStr ''setup'')"
      by (simp add: new_section_def truthy_def)
    ultimately show ?thesis using that by blast
  next
    case (Some d)
    then show ?thesis using that assms(1) by (simp add: c1_def)
  qed
  have "\<exists>ws x. cd_setitem env d0 (KStr k) v
          = (ws, Inr (d0\<lparr>data := dict_set (KStr k) x (data d0)\<rparr>))"
  proof (cases "truthy (cd_section d0)")
    case False
    from cd_setitem_unchecked [OF False, of env "KStr k" v] assms(2,5)
    have "cd_setitem env d0 (KStr k) v = ([], Inr (d0\<lparr>data := dict_set (KStr k) v (data d0)\<rparr>))"
      by simp
    then show ?thesis by blast
  next
    case True
    with s0 have sec: "cd_section d0 = Some (KStr ''setup'')" by simp
    have v: "verify_section_key env (KStr ''setup'') (cd_k (KStr k)) = ([], Inr True)"
      using assms(2,3) by (simp add: verify_section_key_known)
    from cd_setitem_valid [OF True sec v assms(5,6)] assms(2,4)
    have "\<exists>ws. cd_setitem env d0 (KStr k) v
            = (ws, Inr (d0\<lparr>data := dict_set (KStr k) a (data d0)\<rparr>))"
      by simp
    then show ?thesis by blast
  qed
  then obtain ws x where
    s: "cd_setitem env d0 (KStr k) v = (ws, Inr (d0\<lparr>data := dict_set (KStr k) x (data d0)\<rparr>))"
    by blast
  let ?d1 = "d0\<lparr>data := dict_set (KStr k) x (data d0)\<rparr>"
  have u: "cd_update env d0 [(KStr k, v)] = (ws, Inr ?d1)"
    by (simp add: s ret_def)
  have "cf_update env c [(KStr ''setup'', [(KStr k, v)])]
      = (ws, Inr (c1\<lparr>cfg_dict := dict_set (KStr ''setup'') ?d1 (cfg_dict c1)\<rparr>))"
    using cf_update_single [of c1 c "KStr ''setup''" d0 env "[(KStr k, v)]" ws ?d1] d0 u
    by (simp add: cd_k_setup c1_def)
  moreover have "dict_get (data ?d1) (KStr k) \<noteq> None" by (simp add: dict_get_set)
  moreover have "\<not> truthy (cd_section ?d1) \<or> cd_section ?d1 = Some (KStr ''setup'')"
    using s0 by simp
  ultimately show ?thesis by (auto simp add: dict_get_set)
qed

text \<open>
  Claim C4, as the code has it. \<^verbatim>\<open>Configuration.update\<close> merges at the key level and never
  replaces a section: when it returns, every section that existed is still there with the
  same section attribute, every key it had is still present, and every key that the
  argument does not mention for that section has its old value. The two example updates
  leave section "setup" with both keys whenever the assignments are accepted: the section
  "setup" is absent, unchecked or checked under the name "setup", the registry knows both
  keys and its conversion functions return on the two values.
\<close>

theorem update_merges_keys:
  "(cf_update env c newcfg = (ws, Inr c') \<and> dict_get (cfg_dict c) s = Some d \<longrightarrow>
      (\<exists>d'. dict_get (cfg_dict c') s = Some d' \<and> cd_section d' = cd_section d
         \<and> (\<forall>k. k \<notin> mentioned newcfg s \<longrightarrow> dict_get (data d') k = dict_get (data d) k)
         \<and> (\<forall>k. dict_get (data d) k \<noteq> None \<longrightarrow> dict_get (data d') k \<noteq> None)))
   \<and> ((\<forall>d0. dict_get (cfg_dict c) (KStr ''setup'') = Some d0 \<longrightarrow>
             \<not> truthy (cd_section d0) \<or> cd_section d0 = Some (KStr ''setup''))
       \<and> config_key_exists env (KStr ''setup'') (KStr ''channel width'')
       \<and> config_key_exists env (KStr ''setup'') (KStr ''flow rate'')
       \<and> get_config_value_func env (KStr ''setup'') (KStr ''channel width'') v1 = Inr a
       \<and> get_config_value_func env (KStr ''setup'') (KStr ''flow rate'') v2 = Inr b
       \<and> v1 \<noteq> VNone \<and> v1 \<noteq> VStr [] \<and> v2 \<noteq> VNone \<and> v2 \<noteq> VStr [] \<longrightarrow>
       (\<exists>ws1 c1 ws2 c2 d2.
          cf_update env c [(KStr ''setup'', [(KStr ''channel width'', v1)])] = (ws1, Inr c1)
          \<and> cf_update env c1 [(KStr ''setup'', [(KStr ''flow rate'', v2)])] = (ws2, Inr c2)
          \<and> dict_get (cfg_dict c2) (KStr ''setup'') = Some d2
          \<and> cd_contains d2 (KStr ''channel width'') \<and> cd_contains d2 (KStr ''flow rate'')))"
proof (intro conjI impI)
  assume "cf_update env c newcfg = (ws, Inr c') \<and> dict_get (cfg_dict c) s = Some d"
  then show "\<exists>d'. dict_get (cfg_dict c') s = Some d' \<and> cd_section d' = cd_section d
         \<and> (\<forall>k. k \<notin> mentioned newcfg s \<longrightarrow> dict_get (data d') k = dict_get (data d) k)
         \<and> (\<forall>k. dict_get (data d) k \<noteq> None \<longrightarrow> dict_get (data d') k \<noteq> None)"
    using cf_update_preserves [of env c newcfg ws c'] by blast
next
  assume h: "(\<forall>d0. dict_get (cfg_dict c) (KStr ''setup'') = Some d0 \<longrightarrow>
             \<not> truthy (cd_section d0) \<or> cd_section d0 = Some (KStr ''setup''))
       \<and> config_key_exists env (KStr ''setup'') (KStr ''channel width'')
       \<and> config_key_exists env (KStr ''setup'') (KStr ''flow rate'')
       \<and> get_config_value_func env (KStr ''setup'') (KStr ''channel width'') v1 = Inr a
       \<and> get_config_value_func env (KStr ''setup'') (KStr ''flow rate'') v2 = Inr b
       \<and> v1 \<noteq> VNone \<and> v1 \<noteq> VStr [] \<and> v2 \<noteq> VNone \<and> v2 \<noteq> VStr []"
  from h have h1: "\<forall>d0. dict_get (cfg_dict c) (KStr ''setup'') = Some d0 \<longrightarrow>
             \<not> truthy (cd_section d0) \<or> cd_section d0 = Some (KStr ''setup'')" by blast
  from update_one_setup_key [OF h1 setup_keys_normal(1), of env v1 a] h
  obtain ws1 c1 d1 where
    u1: "cf_update env c [(KStr ''setup'', [(KStr ''channel width'', v1)])] = (ws1, Inr c1)"
    and d1: "dict_get (cfg_dict c1) (KStr ''setup'') = Some d1"
      "dict_get (data d1) (KStr ''channel width'') \<noteq> None"
      "\<not> truthy (cd_section d1) \<or> cd_section d1 = Some (KStr ''setup'')"
    by blast
  from d1 have h2: "\<forall>d0. dict_get (cfg_dict c1) (KStr ''setup'') = Some d0 \<longrightarrow>
             \<not> truthy (cd_section d0) \<or> cd_section d0 = Some (KStr ''setup'')" by simp
  from update_one_setup_key [OF h2 setup_keys_normal(2), of env v2 b] h
  obtain ws2 c2 d2 where
    u2: "cf_update env c1 [(KStr ''setup'', [(KStr ''flow rate'', v2)])] = (ws2, Inr c2)"
    and d2: "dict_get (cfg_dict c2) (KStr ''setup'') = Some d2"
      "dict_get (data d2) (KStr ''flow rate'') \<noteq> None"
    by blast
  from cf_update_preserves [OF u2] d1(1)
  obtain d' where "dict_get (cfg_dict c2) (KStr ''setup'') = Some d'"
    and "\<forall>k. dict_get (data d1) k \<noteq> None \<longrightarrow> dict_get (data d') k \<noteq> None"
    by blast
  with d1(2) d2(1)
  have "dict_get (data d2) (KStr ''channel width'') \<noteq> None" by simp
  with d2 have "cd_contains d2 (KStr ''channel width'') \<and> cd_contains d2 (KStr ''flow rate'')"
    by (simp add: cd_contains_def setup_keys_normal)
  with u1 u2 d2
  show "\<exists>ws1 c1 ws2 c2 d2.
          cf_update env c [(KStr ''setup'', [(KStr ''channel width'', v1)])] = (ws1, Inr c1)
          \<and> cf_update env c1 [(KStr ''setup'', [(KStr ''flow rate'', v2)])] = (ws2, Inr c2)
          \<and> dict_get (cfg_dict c2) (KStr ''setup'') = Some d2
          \<and> cd_contains d2 (KStr ''channel width'') \<and> cd_contains d2 (KStr ''flow rate'')"
    by blast
qed

theorem update_merges_keys_witness:
  "cf_update ex_env (filtering_only default_filter_values)
       [(KStr ''setup'', [(KStr ''channel width'', VInt 20)])]
     = ([WrongType (Some (KStr ''setup'')) (KStr ''channel width'') [TFloat] (VInt 20)],
        Inr \<lparr>disable_checks = False,
             cfg_dict = [(KStr ''filtering'',
                          \<lparr>cd_section = Some (KStr ''filtering''),
                           data = default_filter_values\<rparr>),
                         (KStr ''setup'',
                          \<lparr>cd_section = Some (KStr ''setup''),
                           data = [(KStr ''channel width'', VFloat (Fin False 20))]\<rparr>)]\<rparr>)
   \<and> cf_update ex_env
        \<lparr>disable_checks = False,
             cfg_dict = [(KStr ''filtering'',
                          \<lparr>cd_section = Some (KStr ''filtering''),
                           data = default_filter_values\<rparr>),
                         (KStr ''setup'',
                          \<lparr>cd_section = Some (KStr ''setup''),
                           data = [(KStr ''channel width'', VFloat (Fin False 20))]\<rparr>)]\<rparr>
        [(KStr ''setup'', [(KStr ''flow rate'', VFloat (to_double False 16 100))])]
     = ([],
        Inr \<lparr>disable_checks = False,
             cfg_dict = [(KStr ''filtering'',
                          \<lparr>cd_section = Some (KStr ''filtering''),
                           data = default_filter_values\<rparr>),
                         (KStr ''setup'',
                          \<lparr>cd_section = Some (KStr ''setup''),
                           data = [(KStr ''channel width'', VFloat (Fin False 20)),
                                   (KStr ''flow rate'',
                                    VFloat (Fin False (5764607523034235 / 2 ^ 55)))]\<rparr>)]\<rparr>)
   \<and> (\<exists>ws1 c1 ws2 c2 d2.
          cf_update ex_env (filtering_only default_filter_values)
            [(KStr ''setup'', [(KStr ''channel width'', VInt 20)])] = (ws1, Inr c1)
          \<and> cf_update ex_env c1
            [(KStr ''setup'', [(KStr ''flow rate'', VFloat (to_double False 16 100))])]
              = (ws2, Inr c2)
          \<and> dict_get (cfg_dict c2) (KStr ''setup'') = Some d2
          \<and> cd_contains d2 (KStr ''channel width'') \<and> cd_contains d2 (KStr ''flow rate''))
   \<and> (\<exists>d'. dict_get (cfg_dict
        \<lparr>disable_checks = False,
             cfg_dict = [(KStr ''filtering'',
                          \<lparr>cd_section = Some (KStr ''filtering''),
                           data = default_filter_values\<rparr>),
                         (KStr ''setup'',
                          \<lparr>cd_section = Some (KStr ''setup''),
                           data = [(KStr ''channel width'', VFloat (Fin False 20)),
                                   (KStr ''flow rate'',
                                    VFloat (Fin False (5764607523034235 / 2 ^ 55)))]\<rparr>)]\<rparr>)
          (KStr ''setup'') = Some d'
        \<and> dict_get (data d') (KStr ''channel width'') = Some (VFloat (Fin False 20)))"
proof -
  let ?c0 = "filtering_only default_filter_values"
  let ?A = "[(KStr ''setup'', [(KStr ''channel width'', VInt 20)])]"
  let ?B = "[(KStr ''setup'', [(KStr ''flow rate'', VFloat (to_double False 16 100))])]"
  let ?d1 = "\<lparr>cd_section = Some (KStr ''setup''),
              data = [(KStr ''channel width'', VFloat (Fin False 20))]\<rparr>"
  let ?c1 = "\<lparr>disable_checks = False,
             cfg_dict = [(KStr ''filtering'',
                          \<lparr>cd_section = Some (KStr ''filtering''),
                           data = default_filter_values\<rparr>),
                         (KStr ''setup'', ?d1)]\<rparr>"
  let ?c2 = "\<lparr>disable_checks = False,
             cfg_dict = [(KStr ''filtering'',
                          \<lparr>cd_section = Some (KStr ''filtering''),
                           data = default_filter_values\<rparr>),
                         (KStr ''setup'',
                          \<lparr>cd_section = Some (KStr ''setup''),
                           data = [(KStr ''channel width'', VFloat (Fin False 20)),
                                   (KStr ''flow rate'',
                                    VFloat (Fin False (5764607523034235 / 2 ^ 55)))]\<rparr>)]\<rparr>"
  have e1: "cf_update ex_env ?c0 ?A
     = ([WrongType (Some (KStr ''setup'')) (KStr ''channel width'') [TFloat] (VInt 20)], Inr ?c1)"
    by code_simp
  have e2: "cf_update ex_env ?c1 ?B = ([], Inr ?c2)"
    by code_simp
  have g1: "dict_get (cfg_dict ?c1) (KStr ''setup'') = Some ?d1"
    by simp
  have n: "KStr ''channel width'' \<notin> mentioned ?B (KStr ''setup'')"
    by (simp add: mentioned_Cons mentioned_def setup_keys_normal)
  have h0: "\<forall>d0. dict_get (cfg_dict ?c0) (KStr ''setup'') = Some d0 \<longrightarrow>
             \<not> truthy (cd_section d0) \<or> cd_section d0 = Some (KStr ''setup'')"
    by (simp add: filtering_only_def)
  have h1: "config_key_exists ex_env (KStr ''setup'') (KStr ''channel width'')
       \<and> config_key_exists ex_env (KStr ''setup'') (KStr ''flow rate'')
       \<and> get_config_value_func ex_env (KStr ''setup'') (KStr ''channel width'') (VInt 20)
           = Inr (VFloat (Fin False 20))
       \<and> get_config_value_func ex_env (KStr ''setup'') (KStr ''flow rate'')
             (VFloat (to_double False 16 100))
           = Inr (VFloat (to_double False 16 100))
       \<and> VInt 20 \<noteq> VNone \<and> VInt 20 \<noteq> VStr []
       \<and> VFloat (to_double False 16 100) \<noteq> VNone \<and> VFloat (to_double False 16 100) \<noteq> VStr []"
    by code_simp
  from h0 h1
  have h: "(\<forall>d0. dict_get (cfg_dict ?c0) (KStr ''setup'') = Some d0 \<longrightarrow>
             \<not> truthy (cd_section d0) \<or> cd_section d0 = Some (KStr ''setup''))
       \<and> config_key_exists ex_env (KStr ''setup'') (KStr ''channel width'')
       \<and> config_key_exists ex_env (KStr ''setup'') (KStr ''flow rate'')
       \<and> get_config_value_func ex_env (KStr ''setup'') (KStr ''channel width'') (VInt 20)
           = Inr (VFloat (Fin False 20))
       \<and> get_config_value_func ex_env (KStr ''setup'') (KStr ''flow rate'')
             (VFloat (to_double False 16 100))
           = Inr (VFloat (to_double False 16 100))
       \<and> VInt 20 \<noteq> VNone \<and> VInt 20 \<noteq> VStr []
       \<and> VFloat (to_double False 16 100) \<noteq> VNone \<and> VFloat (to_double False 16 100) \<noteq> VStr []"
    by blast
  note t1 = update_merges_keys [of ex_env ?c0 "[]" "[]" ?c0 "KStr ''setup''" ?d1
      "VInt 20" "VFloat (Fin False 20)" "VFloat (to_double False 16 100)"
      "VFloat (to_double False 16 100)", THEN conjunct2, rule_format, OF h]
  note t2 = update_merges_keys [of ex_env ?c1 ?B "[]" ?c2 "KStr ''setup''" ?d1,
      THEN conjunct1, rule_format, OF conjI [OF e2 g1]]
  from t2 n obtain d' where "dict_get (cfg_dict ?c2) (KStr ''setup'') = Some d'"
    and "dict_get (data d') (KStr ''channel width'') = dict_get (data ?d1) (KStr ''channel width'')"
    by blast
  then have "\<exists>d'. dict_get (cfg_dict ?c2) (KStr ''setup'') = Some d'
        \<and> dict_get (data d') (KStr ''channel width'') = Some (VFloat (Fin False 20))"
    by simp
  with e1 e2 t1 show ?thesis by blast
qed

text \<open>
  The claim as stated speaks of every Configuration. A section is stored under its
  lower-case name but validates its keys under the name it was created with: in a
  configuration built from \<^verbatim>\<open>{"Setup": {}}\<close> the section "setup" checks its keys against
  the unknown section name "Setup", and both example updates are dropped with the
  unknown-section warning.
\<close>

theorem update_merges_keys_counterexample:
  "cf_init ex_env [] [(KStr ''Setup'', [])] False
     = ([], Inr \<lparr>disable_checks = False,
          cfg_dict = [(KStr ''filtering'',
                       \<lparr>cd_section = Some (KStr ''filtering''), data = default_filter_values\<rparr>),
                      (KStr ''setup'', \<lparr>cd_section = Some (KStr ''Setup''), data = []\<rparr>)]\<rparr>)
   \<and> cf_update ex_env
        \<lparr>disable_checks = False,
          cfg_dict = [(KStr ''filtering'',
                       \<lparr>cd_section = Some (KStr ''filtering''), data = default_filter_values\<rparr>),
                      (KStr ''setup'', \<lparr>cd_section = Some (KStr ''Setup''), data = []\<rparr>)]\<rparr>
        [(KStr ''setup'', [(KStr ''channel width'', VInt 20)])]
     = ([UnknownSection (KStr ''Setup'')],
        Inr \<lparr>disable_checks = False,
          cfg_dict = [(KStr ''filtering'',
                       \<lparr>cd_section = Some (KStr ''filtering''), data = default_filter_values\<rparr>),
                      (KStr ''setup'', \<lparr>cd_section = Some (KStr ''Setup''), data = []\<rparr>)]\<rparr>)
   \<and> cf_update ex_env
        \<lparr>disable_checks = False,
          cfg_dict = [(KStr ''filtering'',
                       \<lparr>cd_section = Some (KStr ''filtering''), data = default_filter_values\<rparr>),
                      (KStr ''setup'', \<lparr>cd_section = Some (KStr ''Setup''), data = []\<rparr>)]\<rparr>
        [(KStr ''setup'', [(KStr ''flow rate'', VFloat (to_double False 16 100))])]
     = ([UnknownSection (KStr ''Setup'')],
        Inr \<lparr>disable_checks = False,
          cfg_dict = [(KStr ''filtering'',
                       \<lparr>cd_section = Some (KStr ''filtering''), data = default_filter_values\<rparr>),
                      (KStr ''setup'', \<lparr>cd_section = Some (KStr ''Setup''), data = []\<rparr>)]\<rparr>)"
  by code_simp

end
